theory Spec2Isabelle
  imports Main
begin

section \<open>JavaScript values\<close>

text \<open>
  The values that flow through the registration and request helpers.  \<open>JFun\<close> is a
  plain user function (identified by a number), \<open>JApp\<close> a reference to an application
  object (applications are functions, see \<open>createApplication\<close>), \<open>Builtin\<close> a function
  object provided by the host (members of \<open>Object.prototype\<close>, compiled setting
  functions).  \<open>JObj callable ps\<close> is any other object, given by the properties that
  can be read off it; \<open>callable\<close> says whether it is a function.
\<close>

datatype jsval =
    Undefined
  | Null
  | JBool bool
  | JNum int
  | JStr string
  | JArr "jsval list"
  | JFun nat
  | JApp nat
  | Builtin string
  | JObj bool "(string \<times> jsval) list"

text \<open>
  What a \<open>throw\<close> carries: one of the two kinds of error the code shown here runs
  into, with its message, or a value raised by a function of the user's.
\<close>

datatype error = TypeError string | ReferenceError string | Raised jsval

text \<open>\<open>!v\<close> is \<open>\<not> truthy v\<close>.\<close>

fun truthy :: "jsval \<Rightarrow> bool" where
  "truthy Undefined = False"
| "truthy Null = False"
| "truthy (JBool b) = b"
| "truthy (JNum n) = (n \<noteq> 0)"
| "truthy (JStr s) = (s \<noteq> [])"
| "truthy (JArr xs) = True"
| "truthy (JFun f) = True"
| "truthy (JApp a) = True"
| "truthy (Builtin s) = True"
| "truthy (JObj c ps) = True"

fun typeof :: "jsval \<Rightarrow> string" where
  "typeof Undefined = ''undefined''"
| "typeof Null = ''object''"
| "typeof (JBool b) = ''boolean''"
| "typeof (JNum n) = ''number''"
| "typeof (JStr s) = ''string''"
| "typeof (JArr xs) = ''object''"
| "typeof (JFun f) = ''function''"
| "typeof (JApp a) = ''function''"
| "typeof (Builtin s) = ''function''"
| "typeof (JObj c ps) = (if c then ''function'' else ''object'')"

text \<open>\<open>a || b\<close>\<close>

definition js_or :: "jsval \<Rightarrow> jsval \<Rightarrow> jsval" where
  "js_or a b = (if truthy a then a else b)"


text \<open>
  \<open>String.prototype.toLowerCase\<close> on the ASCII range (header names are ASCII tokens);
  bytes outside \<open>A\<close>..\<open>Z\<close> are left alone.
\<close>

definition lower_char :: "char \<Rightarrow> char" where
  "lower_char c =
     (let n = (of_char c :: nat) in if 65 \<le> n \<and> n \<le> 90 then char_of (n + 32) else c)"

definition toLowerCase :: "string \<Rightarrow> string" where
  "toLowerCase s = map lower_char s"

subsection \<open>Objects\<close>

text \<open>
  An object is its own properties and the properties it inherits along its prototype
  chain, each as an association list (first entry wins).  \<open>o[k]\<close> reads own properties
  first and yields \<open>undefined\<close> when neither has the key.
\<close>

record jsobj =
  own :: "(string \<times> jsval) list"
  inherited :: "(string \<times> jsval) list"

definition get_prop :: "jsobj \<Rightarrow> string \<Rightarrow> jsval" where
  "get_prop obj k =
     (case map_of (own obj) k of
        Some v \<Rightarrow> v
      | None \<Rightarrow> (case map_of (inherited obj) k of Some v \<Rightarrow> v | None \<Rightarrow> Undefined))"


text \<open>
  The members every plain object inherits from \<open>Object.prototype\<close>: its methods, and
  the accessor \<open>__proto__\<close>, which reads \<open>Object.prototype\<close> itself.
\<close>

definition object_methods :: "(string \<times> jsval) list" where
  "object_methods =
     [(''constructor'', Builtin ''Object''),
      (''__defineGetter__'', Builtin ''Object.prototype.__defineGetter__''),
      (''__defineSetter__'', Builtin ''Object.prototype.__defineSetter__''),
      (''hasOwnProperty'', Builtin ''Object.prototype.hasOwnProperty''),
      (''__lookupGetter__'', Builtin ''Object.prototype.__lookupGetter__''),
      (''__lookupSetter__'', Builtin ''Object.prototype.__lookupSetter__''),
      (''isPrototypeOf'', Builtin ''Object.prototype.isPrototypeOf''),
      (''propertyIsEnumerable'', Builtin ''Object.prototype.propertyIsEnumerable''),
      (''toString'', Builtin ''Object.prototype.toString''),
      (''valueOf'', Builtin ''Object.prototype.valueOf''),
      (''toLocaleString'', Builtin ''Object.prototype.toLocaleString'')]"

definition object_prototype :: "(string \<times> jsval) list" where
  "object_prototype = object_methods @ [(''__proto__'', JObj False object_methods)]"



section \<open>The request helpers (lib/request.js)\<close>

text \<open>
  A request as far as \<open>req.get\<close> and \<open>req.param\<close> read it: the header bag, and the
  three parameter bags, each of which may be missing (\<open>undefined\<close>).
\<close>

record request =
  headers :: jsobj
  params :: "jsobj option"
  body :: "jsobj option"
  query :: "jsobj option"

text \<open>
  \<open>this.header\<close> is the function \<open>header\<close> itself (\<open>req.get = req.header = function
  header(name) ...\<close>).  As an object it owns \<open>length\<close> and \<open>name\<close>; neither it nor
  \<open>Function.prototype\<close> has a property \<open>referer\<close>.
\<close>

definition function_methods :: "(string \<times> jsval) list" where
  "function_methods =
     [(''apply'', Builtin ''Function.prototype.apply''),
      (''bind'', Builtin ''Function.prototype.bind''),
      (''call'', Builtin ''Function.prototype.call''),
      (''toString'', Builtin ''Function.prototype.toString'')]"

definition header_function :: jsobj where
  "header_function =
     \<lparr>own = [(''length'', JNum 1), (''name'', JStr ''header'')],
      inherited =
        function_methods @ object_methods
          @ [(''__proto__'', JObj True (function_methods @ object_methods))]\<rparr>"

text \<open>
  \<^verbatim>\<open>
  req.get = req.header = function header(name) {
    if (!name) throw new TypeError("name argument is required to req.get");
    if (typeof name !== "string") throw new TypeError("name must be a string to req.get");
    const lc = name.toLowerCase();
    switch (lc) {
      case "referer":
      case "referrer":
        return this.headers.referrer || this.header.referer;
      default:
        return this.headers[lc];
    }
  };
  \<close>
  An absent argument is \<open>Undefined\<close>.
\<close>

definition header :: "request \<Rightarrow> jsval \<Rightarrow> error + jsval" where
  "header this name =
     (if \<not> truthy name then Inl (TypeError ''name argument is required to req.get'')
      else case name of
        JStr s \<Rightarrow>
          (let lc = toLowerCase s in
           if lc = ''referer'' \<or> lc = ''referrer''
           then Inr (js_or (get_prop (headers this) ''referrer'')
                           (get_prop header_function ''referer''))
           else Inr (get_prop (headers this) lc))
      | _ \<Rightarrow> Inl (TypeError ''name must be a string to req.get''))"





section \<open>Applications (lib/application.js, lib/express.js)\<close>

subsection \<open>Routers, routes and the application record\<close>

text \<open>
  What a Layer runs.  \<open>Middleware v\<close> is a value handed to \<open>Router.use\<close> as it is;
  \<open>QueryMw\<close> and \<open>InitMw\<close> are the two functions \<open>lazyrouter\<close> installs
  (\<open>query(this.get("query parser fn"))\<close> and \<open>middleware.init(this)\<close>); \<open>MountedApp fn\<close>
  is the closure \<open>mounted_app\<close> that \<open>app.use\<close> builds around the sub-application
  \<open>fn\<close>, \<open>MountedObject fn\<close> the same closure around a value \<open>fn\<close> that passes for one
  (it has \<open>handle\<close> and \<open>set\<close>) without being an application; \<open>RouteH\<close> is the
  dispatch of a Route, named by its identity.
\<close>

datatype handler =
    Middleware jsval
  | QueryMw jsval
  | InitMw nat
  | MountedApp nat
  | MountedObject jsval
  | RouteH nat

record layer =
  lpath :: jsval
  lhandle :: handler

record router =
  caseSensitive :: bool
  strict :: bool
  stack :: "layer list"

text \<open>A Route: its path and its stack of (method, handler) pairs in registration order.\<close>

record route =
  rpath :: jsval
  rstack :: "(string \<times> jsval) list"

text \<open>
  The objects whose prototype the \<open>mount\<close> listener re-parents: \<open>this.request\<close>,
  \<open>this.response\<close>, \<open>this.engines\<close>, \<open>this.settings\<close>.
\<close>

datatype proto_kind = Request | Response | Engines | Settings

datatype listener = Onmount

text \<open>
  How a registration call can fail: an exception, or the router's rejection of a
  handler.
\<close>

datatype failure = Thrown error | ContractViolation

text \<open>
  An application.  \<open>settings\<close> are the own properties of \<open>this.settings\<close>;
  \<open>protos k = Some p\<close> says that the object \<open>k\<close> of this application has the
  corresponding object of application \<open>p\<close> as its prototype (\<open>None\<close>: the prototype it
  was created with).  \<open>own_router\<close> is the field \<open>_router\<close>.  \<open>mount_listeners\<close> are the
  listeners registered for the event \<open>mount\<close>, \<open>emitted\<close> records every \<open>emit\<close> on
  this application (event name and argument).
\<close>

record app =
  settings :: "string \<rightharpoonup> jsval"
  protos :: "proto_kind \<Rightarrow> nat option"
  own_router :: "router option"
  mountpath :: jsval
  parent :: "nat option"
  mount_listeners :: "listener list"
  emitted :: "(string \<times> nat) list"

text \<open>
  The heap: applications and routes by identity, with the next identity to hand out.
  The last two fields say what a value \<open>fn\<close> that is not an application does when
  \<open>app.use\<close> takes it for one: \<open>user_assign fn k v\<close> is the assignment \<open>fn.k = v\<close> (the
  code is in strict mode, so that a frozen object, a read-only property or a setter
  makes it throw), \<open>user_emit fn\<close> the call \<open>fn.emit("mount", parent)\<close> when \<open>fn.emit\<close> is
  a function.  Each returns (\<open>None\<close>) or throws, and is taken not to touch the
  applications and routes.
\<close>

record world =
  apps :: "nat \<Rightarrow> app"
  next_app :: nat
  routes :: "nat \<Rightarrow> route"
  next_route :: nat
  user_assign :: "jsval \<Rightarrow> string \<Rightarrow> jsval \<Rightarrow> failure option"
  user_emit :: "jsval \<Rightarrow> failure option"

text \<open>
  The helpers of \<open>./utils\<close>, \<open>./view\<close>, \<open>path\<close> and the process environment that
  \<open>app.set\<close> and \<open>defaultConfiguration\<close> call; their code is not part of the
  sources, so they are parameters.
\<close>

record ext =
  compileETag :: "jsval \<Rightarrow> jsval"
  compileQueryParser :: "jsval \<Rightarrow> jsval"
  compileTrust :: "jsval \<Rightarrow> jsval"
  node_env :: jsval
  View :: jsval
  resolve_views :: jsval

definition upd_app :: "world \<Rightarrow> nat \<Rightarrow> (app \<Rightarrow> app) \<Rightarrow> world" where
  "upd_app w a f = w\<lparr>apps := (apps w)(a := f (apps w a))\<rparr>"

subsection \<open>Settings\<close>

text \<open>
  The prototype chain that starts at an object of application \<open>a\<close>, following the given
  link; the chain is cut after as many steps as there are applications.
\<close>

fun proto_chain :: "nat \<Rightarrow> (nat \<Rightarrow> nat option) \<Rightarrow> nat \<Rightarrow> nat list" where
  "proto_chain 0 link a = [a]"
| "proto_chain (Suc n) link a =
     a # (case link a of None \<Rightarrow> [] | Some p \<Rightarrow> proto_chain n link p)"

definition chain_of :: "world \<Rightarrow> proto_kind \<Rightarrow> nat \<Rightarrow> nat list" where
  "chain_of w k a = proto_chain (next_app w) (\<lambda>b. protos (apps w b) k) a"

text \<open>
  \<open>this.settings[setting]\<close>: the first own property along the prototype chain of the
  settings object, which ends in \<open>Object.prototype\<close>.
\<close>

definition settings_get :: "world \<Rightarrow> nat \<Rightarrow> string \<Rightarrow> jsval" where
  "settings_get w a k =
     (case List.map_filter (\<lambda>b. settings (apps w b) k) (chain_of w Settings a) of
        v # _ \<Rightarrow> v
      | [] \<Rightarrow> (case map_of object_prototype k of Some v \<Rightarrow> v | None \<Rightarrow> Undefined))"

definition trustProxyDefaultSymbol :: string where
  "trustProxyDefaultSymbol = ''@@symbol:trust_proxy_default''"

definition set_own :: "world \<Rightarrow> nat \<Rightarrow> string \<Rightarrow> jsval \<Rightarrow> world" where
  "set_own w a k v = upd_app w a (\<lambda>x. x\<lparr>settings := (settings x)(k \<mapsto> v)\<rparr>)"

definition delete_own :: "world \<Rightarrow> nat \<Rightarrow> string \<Rightarrow> world" where
  "delete_own w a k = upd_app w a (\<lambda>x. x\<lparr>settings := (settings x)(k := None)\<rparr>)"

text \<open>
  \<^verbatim>\<open>
  app.set = function set(setting, val) {
    if (arguments.length === 1) return this.settings[setting];
    this.settings[setting] = val;
    switch (setting) {
      case "etag": this.set("etag fn", compileETag(val)); break;
      case "query parser": this.set("query parser fn", compileQueryParser(val)); break;
      case "trust proxy":
        this.set("trust proxy fn", compileTrust(val));
        Object.defineProperty(this.settings, trustProxyDefaultSymbol,
          { configurable: true, value: false });
        break;
    }
    return this;
  };
  \<close>
  The one-argument form is \<open>settings_get\<close>; \<open>app_set\<close> is the two-argument form.  The
  settings it sets in turn trigger no further case.
\<close>

definition app_set :: "ext \<Rightarrow> world \<Rightarrow> nat \<Rightarrow> string \<Rightarrow> jsval \<Rightarrow> world" where
  "app_set X w this setting val =
     (let w1 = set_own w this setting val in
      if setting = ''etag'' then set_own w1 this ''etag fn'' (compileETag X val)
      else if setting = ''query parser''
        then set_own w1 this ''query parser fn'' (compileQueryParser X val)
      else if setting = ''trust proxy''
        then set_own (set_own w1 this ''trust proxy fn'' (compileTrust X val))
               this trustProxyDefaultSymbol (JBool False)
      else w1)"

text \<open>\<open>app.enabled\<close>, \<open>app.disabled\<close>, \<open>app.enable\<close>, \<open>app.disable\<close>.\<close>

definition enabled :: "world \<Rightarrow> nat \<Rightarrow> string \<Rightarrow> bool" where
  "enabled w this setting = truthy (settings_get w this setting)"

definition disabled :: "world \<Rightarrow> nat \<Rightarrow> string \<Rightarrow> bool" where
  "disabled w this setting = (\<not> truthy (settings_get w this setting))"

definition enable :: "ext \<Rightarrow> world \<Rightarrow> nat \<Rightarrow> string \<Rightarrow> world" where
  "enable X w this setting = app_set X w this setting (JBool True)"

definition disable :: "ext \<Rightarrow> world \<Rightarrow> nat \<Rightarrow> string \<Rightarrow> world" where
  "disable X w this setting = app_set X w this setting (JBool False)"

subsection \<open>The router's registration interface\<close>

text \<open>
  Modelled from the spec: \<open>Router.use\<close> of lib/router, which is not among the sources
  (\<open>use([path,] handler | handler[])\<close>: append one or more Layers at an optional path
  prefix, default \<open>/\<close>, in call order).  \<open>Router_use\<close> appends the Layer for one
  function at a path.
\<close>

definition Router_use :: "router \<Rightarrow> jsval \<Rightarrow> handler \<Rightarrow> router" where
  "Router_use r p h = r\<lparr>stack := stack r @ [\<lparr>lpath = p, lhandle = h\<rparr>]\<rparr>"

text \<open>
  Modelled from the spec: \<open>Router.use(path, fn)\<close> for an arbitrary value \<open>fn\<close>;
  registering a non-function handler is a contract violation, reported immediately.
\<close>

definition Router_use_value :: "router \<Rightarrow> jsval \<Rightarrow> jsval \<Rightarrow> failure + router" where
  "Router_use_value r p fn =
     (if typeof fn = ''function'' then Inr (Router_use r p (Middleware fn))
      else Inl ContractViolation)"

text \<open>
  Modelled from the spec: \<open>Router.route(path)\<close> of lib/router, which is not among the
  sources (fetch-or-create the Route for an exact path pattern; re-fetch by identical
  path returns the same Route instance).  The Route found is the one of the first
  Layer that dispatches to a Route registered under that path; a new Route gets the
  next free identity and a Layer at the end of the stack.
\<close>

fun find_route :: "layer list \<Rightarrow> jsval \<Rightarrow> nat option" where
  "find_route [] p = None"
| "find_route (l # ls) p =
     (case lhandle l of
        RouteH rid \<Rightarrow> if lpath l = p then Some rid else find_route ls p
      | _ \<Rightarrow> find_route ls p)"

definition set_router :: "world \<Rightarrow> nat \<Rightarrow> router \<Rightarrow> world" where
  "set_router w a r = upd_app w a (\<lambda>x. x\<lparr>own_router := Some r\<rparr>)"

definition Router_route :: "world \<Rightarrow> nat \<Rightarrow> router \<Rightarrow> jsval \<Rightarrow> nat \<times> world" where
  "Router_route w owner r p =
     (case find_route (stack r) p of
        Some rid \<Rightarrow> (rid, w)
      | None \<Rightarrow>
          (let rid = next_route w;
               w1 = w\<lparr>routes := (routes w)(rid := \<lparr>rpath = p, rstack = []\<rparr>),
                       next_route := Suc rid\<rparr>
           in (rid, set_router w1 owner (Router_use r p (RouteH rid)))))"

text \<open>
  Modelled from the spec: the method-verb registration on a Route of lib/router/route,
  which is not among the sources (append handler(s) to that Route's per-method stack).
\<close>

definition Route_verb :: "world \<Rightarrow> nat \<Rightarrow> string \<Rightarrow> jsval list \<Rightarrow> world" where
  "Route_verb w rid m hs =
     w\<lparr>routes := (routes w)(rid := (routes w rid)\<lparr>rstack := rstack (routes w rid) @ map (Pair m) hs\<rparr>)\<rparr>"

subsection \<open>lazyrouter\<close>

text \<open>
  \<^verbatim>\<open>
  app.lazyrouter = function lazyrouter() {
    if (!this._router) {
      this._router = new Router({
        caseSensitive: this.enabled("case sensitive routing"),
        strict: this.enabled("strict routing")
      });
      this._router.use(query(this.get("query parser fn")));
      this._router.use(middleware.init(this));
    }
  };
  \<close>
  \<open>this.get(setting)\<close> with one argument is \<open>this.set(setting)\<close>.
\<close>

definition lazyrouter :: "world \<Rightarrow> nat \<Rightarrow> world" where
  "lazyrouter w this =
     (case own_router (apps w this) of
        Some r \<Rightarrow> w
      | None \<Rightarrow>
          (let r0 = \<lparr>caseSensitive = enabled w this ''case sensitive routing'',
                     strict = enabled w this ''strict routing'',
                     stack = []\<rparr>;
               r1 = Router_use r0 (JStr ''/'') (QueryMw (settings_get w this ''query parser fn''));
               r2 = Router_use r1 (JStr ''/'') (InitMw this)
           in set_router w this r2))"

subsection \<open>The mount event\<close>

text \<open>
  \<open>setPrototypeOf(this.k, parent.k)\<close>: a \<open>TypeError\<close> when \<open>this.k\<close> is already on the
  prototype chain of \<open>parent.k\<close> (the chain would become cyclic).
\<close>

definition setPrototypeOf :: "proto_kind \<Rightarrow> world \<Rightarrow> nat \<Rightarrow> nat \<Rightarrow> failure option \<times> world" where
  "setPrototypeOf k w this p =
     (if this \<in> set (chain_of w k p)
      then (Some (Thrown (TypeError ''Cyclic __proto__ value'')), w)
      else (None, upd_app w this (\<lambda>x. x\<lparr>protos := (protos x)(k := Some p)\<rparr>)))"

text \<open>Run the next step unless the previous one threw; the state at the throw stays.\<close>

definition and_then ::
  "failure option \<times> world \<Rightarrow> (world \<Rightarrow> failure option \<times> world) \<Rightarrow> failure option \<times> world" where
  "and_then r f = (case fst r of None \<Rightarrow> f (snd r) | Some e \<Rightarrow> r)"

text \<open>
  \<^verbatim>\<open>
  this.on("mount", function onmount(parent) {
    if (this.settings[trustProxyDefaultSymbol] === true &&
        typeof parent.settings["trust proxy fn"] === "function") {
      delete this.settings["trust proxy"];
      delete this.settings["trust proxy fn"];
    }
    setPrototypeOf(this.request, parent.request);
    setPrototypeOf(this.response, parent.response);
    setPrototypeOf(this.engines, parent.engines);
    setPrototypeOf(this.settings, parent.settings);
  });
  \<close>
\<close>

definition onmount :: "world \<Rightarrow> nat \<Rightarrow> nat \<Rightarrow> failure option \<times> world" where
  "onmount w this p =
     (let w1 = (if settings_get w this trustProxyDefaultSymbol = JBool True
                   \<and> typeof (settings_get w p ''trust proxy fn'') = ''function''
                then delete_own (delete_own w this ''trust proxy'') this ''trust proxy fn''
                else w)
      in and_then (setPrototypeOf Request w1 this p) (\<lambda>w2.
         and_then (setPrototypeOf Response w2 this p) (\<lambda>w3.
         and_then (setPrototypeOf Engines w3 this p) (\<lambda>w4.
         setPrototypeOf Settings w4 this p))))"

fun run_listeners :: "listener list \<Rightarrow> world \<Rightarrow> nat \<Rightarrow> nat \<Rightarrow> failure option \<times> world" where
  "run_listeners [] w this p = (None, w)"
| "run_listeners (Onmount # ls) w this p =
     and_then (onmount w this p) (\<lambda>w'. run_listeners ls w' this p)"

text \<open>
  \<open>fn.emit("mount", parent)\<close>: the emission is recorded, then the listeners registered
  at that moment run in order.
\<close>

definition emit_mount :: "world \<Rightarrow> nat \<Rightarrow> nat \<Rightarrow> failure option \<times> world" where
  "emit_mount w fn p =
     run_listeners (mount_listeners (apps w fn))
       (upd_app w fn (\<lambda>x. x\<lparr>emitted := emitted x @ [(''mount'', p)]\<rparr>)) fn p"

subsection \<open>app.use\<close>

text \<open>
  \<open>v.k\<close> for a truthy value \<open>v\<close>, as far as \<open>app.use\<close> reads it (\<open>handle\<close>, \<open>set\<close>,
  \<open>emit\<close>).  An application has the members that \<open>createApplication\<close> mixes in, from
  the application prototype and from \<open>EventEmitter.prototype\<close>; an object has the
  properties it is given by; a plain function, a host function and a primitive have
  none of the three.
\<close>

definition app_members :: "string list" where
  "app_members =
     [''init'', ''defaultConfiguration'', ''lazyrouter'', ''handle'', ''use'', ''route'',
      ''engine'', ''param'', ''set'', ''path'', ''enabled'', ''disabled'', ''enable'',
      ''disable'', ''on'', ''emit'']"

definition get_member :: "jsval \<Rightarrow> string \<Rightarrow> jsval" where
  "get_member v k =
     (case v of
        JApp a \<Rightarrow> if k \<in> set app_members then Builtin (''app.'' @ k) else Undefined
      | JObj c ps \<Rightarrow> (case map_of ps k of Some x \<Rightarrow> x | None \<Rightarrow> Undefined)
      | _ \<Rightarrow> Undefined)"

text \<open>
  \<open>flatten\<close> of the package array-flatten: every element of every nested array, in
  order.
\<close>

fun flatten :: "jsval list \<Rightarrow> jsval list" where
  "flatten [] = []"
| "flatten (JArr xs # rest) = flatten xs @ flatten rest"
| "flatten (v # rest) = v # flatten rest"

text \<open>
  \<^verbatim>\<open>
  while (Array.isArray(arg) && arg.length !== 0) { arg = arg[0]; }
  \<close>
\<close>

fun first_leaf :: "jsval \<Rightarrow> jsval" where
  "first_leaf (JArr (x # xs)) = first_leaf x"
| "first_leaf v = v"

text \<open>
  The first lines of \<open>app.use\<close>: whether the first argument is the path.
  \<^verbatim>\<open>
  let offset = 0;
  let path = "/";
  if (typeof fn !== "function") {
    let arg = fn;
    while (Array.isArray(arg) && arg.length !== 0) { arg = arg[0]; }
    if (typeof arg !== "function") { offset = 1; path = fn; }
  }
  \<close>
  \<open>fn\<close> is the first argument, \<open>undefined\<close> when there is none.
\<close>

definition use_fn :: "jsval list \<Rightarrow> jsval" where
  "use_fn args = (case args of [] \<Rightarrow> Undefined | a # _ \<Rightarrow> a)"

definition use_offset :: "jsval list \<Rightarrow> nat" where
  "use_offset args =
     (if typeof (use_fn args) \<noteq> ''function''
      then (if typeof (first_leaf (use_fn args)) \<noteq> ''function'' then 1 else 0)
      else 0)"

definition use_path :: "jsval list \<Rightarrow> jsval" where
  "use_path args =
     (if typeof (use_fn args) \<noteq> ''function''
      then (if typeof (first_leaf (use_fn args)) \<noteq> ''function'' then use_fn args else JStr ''/'')
      else JStr ''/'')"

text \<open>
  The body of the \<open>forEach\<close> for one element \<open>fn\<close> of the flattened list.
  \<^verbatim>\<open>
  if (!fn || !fn.handle || !fn.set) { return router.use(path, fn); }
  fn.mountpath = path;
  fn.parent = this;
  router.use(path, function mounted_app(req, res, next) { ... });
  fn.emit("mount", this);
  \<close>
  \<open>router\<close> is \<open>this._router\<close>.  An application always passes the guard.  For another
  value that passes it, the two assignments are that value's business, then the Layer
  is registered, and \<open>fn.emit\<close> is called: a \<open>TypeError\<close> when it is not a function.
\<close>

definition use_one :: "world \<Rightarrow> nat \<Rightarrow> jsval \<Rightarrow> jsval \<Rightarrow> failure option \<times> world" where
  "use_one w this p fn =
     (case own_router (apps w this) of
        None \<Rightarrow> (Some (Thrown (TypeError ''Cannot read property use of undefined'')), w)
      | Some r \<Rightarrow>
          if \<not> truthy fn \<or> \<not> truthy (get_member fn ''handle'') \<or> \<not> truthy (get_member fn ''set'')
          then (case Router_use_value r p fn of
                  Inl e \<Rightarrow> (Some e, w)
                | Inr r' \<Rightarrow> (None, set_router w this r'))
          else (case fn of
                  JApp c \<Rightarrow>
                    (let w1 = upd_app w c (\<lambda>x. x\<lparr>mountpath := p, parent := Some this\<rparr>);
                         w2 = upd_app w1 this
                                (\<lambda>x. x\<lparr>own_router := Some (Router_use r p (MountedApp c))\<rparr>)
                     in emit_mount w2 c this)
                | _ \<Rightarrow>
                    and_then (user_assign w fn ''mountpath'' p, w) (\<lambda>w.
                    and_then (user_assign w fn ''parent'' (JApp this), w) (\<lambda>w.
                      (let w2 = upd_app w this
                                  (\<lambda>x. x\<lparr>own_router :=
                                           Some (Router_use r p (MountedObject fn))\<rparr>)
                       in if typeof (get_member fn ''emit'') \<noteq> ''function''
                          then (Some (Thrown (TypeError ''fn.emit is not a function'')), w2)
                          else (user_emit w fn, w2))))))"

fun use_each :: "world \<Rightarrow> nat \<Rightarrow> jsval \<Rightarrow> jsval list \<Rightarrow> failure option \<times> world" where
  "use_each w this p [] = (None, w)"
| "use_each w this p (fn # fns) =
     and_then (use_one w this p fn) (\<lambda>w'. use_each w' this p fns)"

text \<open>
  \<^verbatim>\<open>
  app.use = function use(fn) {
    ...offset and path as above...
    const fns = flatten(slice.call(arguments, offset));
    if (fns.length === 0) {
      throw new TypeError("app.use() requires a middleware function");
    }
    this.lazyrouter();
    const router = this._router;
    fns.forEach(function(fn) { ... }, this);
    return this;
  };
  \<close>
  The result is the exception, if any, and the heap at the return or at the throw.
\<close>

definition app_use :: "world \<Rightarrow> nat \<Rightarrow> jsval list \<Rightarrow> failure option \<times> world" where
  "app_use w this args =
     (let fns = flatten (drop (use_offset args) args) in
      if fns = []
      then (Some (Thrown (TypeError ''app.use() requires a middleware function'')), w)
      else use_each (lazyrouter w this) this (use_path args) fns)"

subsection \<open>app.route and the verbs\<close>

text \<open>
  \<^verbatim>\<open>
  app.route = function route(path) {
    this.lazyrouter();
    return this._router.route(path);
  };
  \<close>
  The result is the identity of the Route returned and the heap.
\<close>

definition app_route :: "world \<Rightarrow> nat \<Rightarrow> jsval \<Rightarrow> nat option \<times> world" where
  "app_route w this p =
     (let w1 = lazyrouter w this in
      case own_router (apps w1 this) of
        None \<Rightarrow> (None, w1)
      | Some r \<Rightarrow> (case Router_route w1 this r p of (rid, w2) \<Rightarrow> (Some rid, w2)))"

text \<open>
  \<^verbatim>\<open>
  app[method] = function(path) {
    if (method === "get" && arguments.length === 1) { return this.set(path); }
    this.lazyrouter();
    const route = this._router.route(path);
    route[method].apply(route, slice.call(arguments, 1));
    return this;
  };
  \<close>
  \<open>app_verb\<close> is the registering form (not \<open>app.get(setting)\<close>); \<open>hs\<close> are the arguments
  after the path.
\<close>

definition app_verb :: "world \<Rightarrow> nat \<Rightarrow> string \<Rightarrow> jsval \<Rightarrow> jsval list \<Rightarrow> world" where
  "app_verb w this m p hs =
     (case app_route w this p of
        (Some rid, w1) \<Rightarrow> Route_verb w1 rid m hs
      | (None, w1) \<Rightarrow> w1)"

subsection \<open>createApplication\<close>

text \<open>
  \<^verbatim>\<open>
  app.defaultConfiguration = function defaultConfiguration() {
    const env = process.env.NODE_ENV || "development";
    this.enable("x-powered-by");
    this.set("etag", "weak");
    this.set("env", "env");
    this.set("query parser", "extended");
    this.set("subdomain offset", 2);
    this.set("trust proxy", false);
    Object.defineProperty(this.settings, trustProxyDefaultSymbol,
      { configurable: true, value: true });
    this.on("mount", function onmount(parent) { ... });
    this.locals = Object.create(null);
    this.mountpath = "/";
    this.locals.settings = this.settings;
    this.set("view", View);
    this.set("views", resolve("views"));
    this.set("jsonp callback name", "callback");
    if (env === "production") { this.enable("view cache"); }
    ...
  };
  \<close>
\<close>

definition defaultConfiguration :: "ext \<Rightarrow> world \<Rightarrow> nat \<Rightarrow> world" where
  "defaultConfiguration X w this =
     (let env = js_or (node_env X) (JStr ''development'');
          w1 = enable X w this ''x-powered-by'';
          w2 = app_set X w1 this ''etag'' (JStr ''weak'');
          w3 = app_set X w2 this ''env'' (JStr ''env'');
          w4 = app_set X w3 this ''query parser'' (JStr ''extended'');
          w5 = app_set X w4 this ''subdomain offset'' (JNum 2);
          w6 = app_set X w5 this ''trust proxy'' (JBool False);
          w7 = set_own w6 this trustProxyDefaultSymbol (JBool True);
          w8 = upd_app w7 this (\<lambda>x. x\<lparr>mount_listeners := mount_listeners x @ [Onmount]\<rparr>);
          w9 = upd_app w8 this (\<lambda>x. x\<lparr>mountpath := JStr ''/''\<rparr>);
          w10 = app_set X w9 this ''view'' (View X);
          w11 = app_set X w10 this ''views'' (resolve_views X);
          w12 = app_set X w11 this ''jsonp callback name'' (JStr ''callback'')
      in if env = JStr ''production'' then enable X w12 this ''view cache'' else w12)"

text \<open>
  \<open>createApplication\<close> makes a new function object \<open>app\<close>, mixes in the application
  prototype and calls \<open>app.init()\<close>, which starts from empty settings and runs
  \<open>defaultConfiguration\<close>.  The result is the new application, a function value.
\<close>

definition blank_app :: app where
  "blank_app =
     \<lparr>settings = Map.empty, protos = (\<lambda>k. None), own_router = None, mountpath = Undefined,
      parent = None, mount_listeners = [], emitted = []\<rparr>"

definition createApplication :: "ext \<Rightarrow> world \<Rightarrow> jsval \<times> world" where
  "createApplication X w =
     (let a = next_app w;
          w1 = w\<lparr>apps := (apps w)(a := blank_app), next_app := Suc a\<rparr>
      in (JApp a, defaultConfiguration X w1 a))"

section \<open>Dispatch\<close>

subsection \<open>Requests, handlers and answers\<close>

text \<open>
  The request/response pair as dispatch sees it.  \<open>req_proto = Some a\<close> says that the
  prototype of the request object is \<open>a.request\<close> (\<open>None\<close>: the prototype the transport
  gave it); likewise \<open>res_proto\<close> and \<open>a.response\<close>.
\<close>

record reqres =
  url :: string
  req_method :: string
  req_proto :: "nat option"
  res_proto :: "nat option"

text \<open>
  \<open>req.app\<close>: \<open>createApplication\<close> gives \<open>a.request\<close> the own property \<open>app = a\<close>, so a
  request whose prototype is \<open>a.request\<close> reads \<open>a\<close>; a request with the transport's
  prototype has no such property.
\<close>

definition req_app :: "reqres \<Rightarrow> nat option" where
  "req_app st = req_proto st"

text \<open>
  What one call of a handler function does before it returns: it calls \<open>next\<close> (with
  an error value, \<open>Undefined\<close> for none), it ends the exchange without calling \<open>next\<close>,
  or it throws.  A handler function is plain or, by its shape, error-handling.
\<close>

datatype action = CallNext jsval reqres | NoNext reqres | Throws jsval reqres

datatype behaviour = Plain "reqres \<Rightarrow> action" | ErrorHandling "jsval \<Rightarrow> reqres \<Rightarrow> action"

text \<open>
  What can be observed of a dispatch: a handler ran, a callback was called with an
  error value on a pair, an exception escaped.  An answer is the sequence of
  observations, or \<open>None\<close> when the nesting of sub-applications exceeds the budget.
\<close>

datatype event = Ran handler | Called jsval reqres | Uncaught error

type_synonym answer = "event list option"

type_synonym cont = "jsval \<Rightarrow> reqres \<Rightarrow> answer"

definition pre :: "event list \<Rightarrow> answer \<Rightarrow> answer" where
  "pre evs ans = map_option ((@) evs) ans"

text \<open>
  The collaborators of dispatch whose code is not among the sources: the behaviour of
  every handler function, of the two middleware \<open>lazyrouter\<close> installs, of the
  \<open>handle\<close> function of a mounted value that is not an application (\<open>CallNext\<close>: it
  calls the callback it is given), and the path matcher (case sensitivity,
  strictness, whether the whole path must be consumed, pattern, path; the result is
  the remainder path).
\<close>

record env =
  fun_beh :: "jsval \<Rightarrow> behaviour"
  query_beh :: "jsval \<Rightarrow> reqres \<Rightarrow> action"
  init_beh :: "nat \<Rightarrow> reqres \<Rightarrow> action"
  obj_beh :: "jsval \<Rightarrow> reqres \<Rightarrow> action"
  matcher :: "bool \<Rightarrow> bool \<Rightarrow> bool \<Rightarrow> jsval \<Rightarrow> string \<Rightarrow> string option"

definition act :: "action \<Rightarrow> cont \<Rightarrow> answer" where
  "act a next =
     (case a of CallNext e s \<Rightarrow> next e s | NoNext s \<Rightarrow> Some [] | Throws e s \<Rightarrow> next e s)"

subsection \<open>The mount adapter and the application's entry points\<close>

text \<open>
  \<^verbatim>\<open>
  router.use(path, function mounted_app(req, res, next) {
    const orig = req.app;
    fn.handle(req, res, function(err) {
      setPrototypeOf(req, orig.request);
      setPrototypeOf(res, orig.response);
      next(err);
    });
  });
  \<close>
  \<open>H\<close> is \<open>handle\<close> of the applications (\<open>H fn\<close> is \<open>fn.handle\<close>).  With \<open>req.app\<close>
  undefined the callback throws on \<open>orig.request\<close>.
\<close>

definition mounted_app ::
  "(nat \<Rightarrow> reqres \<Rightarrow> cont option \<Rightarrow> answer) \<Rightarrow> nat \<Rightarrow> reqres \<Rightarrow> cont \<Rightarrow> answer" where
  "mounted_app H fn st next =
     (let orig = req_app st in
      H fn st (Some (\<lambda>err st'.
        case orig of
          None \<Rightarrow> Some [Uncaught (TypeError ''Cannot read property request of undefined'')]
        | Some a \<Rightarrow> next err (st'\<lparr>req_proto := Some a, res_proto := Some a\<rparr>))))"

text \<open>
  The same closure around a value \<open>fn\<close> that is not an application: \<open>fn.handle\<close> is
  the user's.  Calling it throws a \<open>TypeError\<close> when it is not a function; what the
  closure throws goes to the router (\<open>thrown\<close>), which resumes with it as the error.
\<close>

definition not_a_function :: "string \<Rightarrow> jsval" where
  "not_a_function what =
     JObj False [(''name'', JStr ''TypeError''),
                 (''message'', JStr (what @ '' is not a function''))]"

definition mounted_object :: "env \<Rightarrow> jsval \<Rightarrow> reqres \<Rightarrow> cont \<Rightarrow> cont \<Rightarrow> answer" where
  "mounted_object E fn st next thrown =
     (let orig = req_app st in
      case (if typeof (get_member fn ''handle'') = ''function'' then obj_beh E fn st
            else Throws (not_a_function ''fn.handle'') st) of
        CallNext err st' \<Rightarrow>
          (case orig of
             None \<Rightarrow> Some [Uncaught (TypeError ''Cannot read property request of undefined'')]
           | Some a \<Rightarrow> next err (st'\<lparr>req_proto := Some a, res_proto := Some a\<rparr>))
      | NoNext st' \<Rightarrow> Some []
      | Throws e st' \<Rightarrow> thrown e st')"

text \<open>
  \<^verbatim>\<open>
  const app = function(req, res, next) { app.handle(req, res, next); };
  \<close>
  The function that \<open>createApplication\<close> returns, called as a handler; \<open>next\<close> may be
  absent.
\<close>

definition app_fn ::
  "(nat \<Rightarrow> reqres \<Rightarrow> cont option \<Rightarrow> answer) \<Rightarrow> nat \<Rightarrow> reqres \<Rightarrow> cont option \<Rightarrow> answer" where
  "app_fn H app st next = H app st next"

subsection \<open>The router's dispatch loop\<close>

text \<open>
  Modelled from the spec: \<open>Route.dispatch\<close> of lib/router/route, which is not among
  the sources.  It walks the Route's stack in registration order, skips entries whose
  method does not apply (an entry for all methods always applies, a \<open>get\<close> entry
  serves \<open>head\<close> when the Route has no \<open>head\<close> entry), and calls the outer \<open>next\<close>
  when no entry is left.
\<close>

definition method_applies :: "bool \<Rightarrow> string \<Rightarrow> string \<Rightarrow> bool" where
  "method_applies has_head m requested =
     (m = ''_all'' \<or> m = requested \<or> (requested = ''head'' \<and> m = ''get'' \<and> \<not> has_head))"

fun Route_dispatch ::
  "env \<Rightarrow> bool \<Rightarrow> (string \<times> jsval) list \<Rightarrow> reqres \<Rightarrow> jsval \<Rightarrow> cont \<Rightarrow> answer" where
  "Route_dispatch E hh [] st err next = next err st"
| "Route_dispatch E hh ((m, h) # es) st err next =
     (if \<not> method_applies hh m (req_method st) then Route_dispatch E hh es st err next
      else case fun_beh E h of
        Plain b \<Rightarrow>
          if err \<noteq> Undefined then Route_dispatch E hh es st err next
          else pre [Ran (Middleware h)]
                 (act (b st) (\<lambda>e s. Route_dispatch E hh es s e next))
      | ErrorHandling b \<Rightarrow>
          if err = Undefined then Route_dispatch E hh es st err next
          else pre [Ran (Middleware h)]
                 (act (b err st) (\<lambda>e s. Route_dispatch E hh es s e next)))"

text \<open>
  Modelled from the spec: \<open>Router.handle\<close> of lib/router, which is not among the
  sources (section 4.4).  The loop advances to the next Layer whose path matches the
  current path; with an error pending only error-handling Layers are candidates,
  without one only ordinary Layers.  With no Layer left it calls \<open>done\<close> with the
  pending error.  A matching Layer's handler sees the remainder path and gets a
  \<open>next\<close> that restores the path and resumes the loop behind this Layer, with the
  error it is given.  A handler that throws is treated as one that calls \<open>next\<close> with
  the thrown value.  A Route must consume the whole path.

  \<open>H\<close> is \<open>handle\<close> of the applications, for the Layers that hold an application.
\<close>

fun Router_walk ::
  "(nat \<Rightarrow> reqres \<Rightarrow> cont option \<Rightarrow> answer) \<Rightarrow> env \<Rightarrow> (nat \<Rightarrow> route) \<Rightarrow> router
     \<Rightarrow> layer list \<Rightarrow> reqres \<Rightarrow> jsval \<Rightarrow> cont \<Rightarrow> answer" where
  "Router_walk H E rts r [] st err done = done err st"
| "Router_walk H E rts r (l # ls) st err done =
     (case matcher E (caseSensitive r) (strict r)
             (case lhandle l of RouteH rid \<Rightarrow> True | _ \<Rightarrow> False) (lpath l) (url st) of
        None \<Rightarrow> Router_walk H E rts r ls st err done
      | Some rest \<Rightarrow>
          (case lhandle l of
             Middleware v \<Rightarrow>
               (case v of
                  JApp c \<Rightarrow>
                    if err \<noteq> Undefined then Router_walk H E rts r ls st err done
                    else pre [Ran (Middleware v)]
                           (app_fn H c (st\<lparr>url := rest\<rparr>)
                              (Some (\<lambda>e s. Router_walk H E rts r ls (s\<lparr>url := url st\<rparr>) e done)))
                | _ \<Rightarrow>
                    (case fun_beh E v of
                       Plain b \<Rightarrow>
                         if err \<noteq> Undefined then Router_walk H E rts r ls st err done
                         else pre [Ran (Middleware v)]
                                (act (b (st\<lparr>url := rest\<rparr>))
                                   (\<lambda>e s. Router_walk H E rts r ls (s\<lparr>url := url st\<rparr>) e done))
                     | ErrorHandling b \<Rightarrow>
                         if err = Undefined then Router_walk H E rts r ls st err done
                         else pre [Ran (Middleware v)]
                                (act (b err (st\<lparr>url := rest\<rparr>))
                                   (\<lambda>e s. Router_walk H E rts r ls (s\<lparr>url := url st\<rparr>) e done))))
           | QueryMw v \<Rightarrow>
               if err \<noteq> Undefined then Router_walk H E rts r ls st err done
               else pre [Ran (QueryMw v)]
                      (act (query_beh E v (st\<lparr>url := rest\<rparr>))
                         (\<lambda>e s. Router_walk H E rts r ls (s\<lparr>url := url st\<rparr>) e done))
           | InitMw a \<Rightarrow>
               if err \<noteq> Undefined then Router_walk H E rts r ls st err done
               else pre [Ran (InitMw a)]
                      (act (init_beh E a (st\<lparr>url := rest\<rparr>))
                         (\<lambda>e s. Router_walk H E rts r ls (s\<lparr>url := url st\<rparr>) e done))
           | MountedApp c \<Rightarrow>
               if err \<noteq> Undefined then Router_walk H E rts r ls st err done
               else pre [Ran (MountedApp c)]
                      (mounted_app H c (st\<lparr>url := rest\<rparr>)
                         (\<lambda>e s. Router_walk H E rts r ls (s\<lparr>url := url st\<rparr>) e done))
           | MountedObject v \<Rightarrow>
               if err \<noteq> Undefined then Router_walk H E rts r ls st err done
               else pre [Ran (MountedObject v)]
                      (mounted_object E v (st\<lparr>url := rest\<rparr>)
                         (\<lambda>e s. Router_walk H E rts r ls (s\<lparr>url := url st\<rparr>) e done)
                         (\<lambda>e s. Router_walk H E rts r ls (s\<lparr>url := url st\<rparr>) e done))
           | RouteH rid \<Rightarrow>
               if err \<noteq> Undefined then Router_walk H E rts r ls st err done
               else pre [Ran (RouteH rid)]
                      (Route_dispatch E (''head'' \<in> fst ` set (rstack (rts rid)))
                         (rstack (rts rid)) st Undefined
                         (\<lambda>e s. Router_walk H E rts r ls s e done))))"

definition Router_handle ::
  "(nat \<Rightarrow> reqres \<Rightarrow> cont option \<Rightarrow> answer) \<Rightarrow> env \<Rightarrow> world \<Rightarrow> router
     \<Rightarrow> reqres \<Rightarrow> cont \<Rightarrow> answer" where
  "Router_handle H E w r st done = Router_walk H E (routes w) r (stack r) st Undefined done"

subsection \<open>app.handle\<close>

text \<open>
  \<^verbatim>\<open>
  app.handle = function handle(req, res, callback) {
    const router = this._router;
    const done = callback ||
      finalhandler(req, res, { env: this.get("env"), onerror: logerror.bind(this) });
    if (!router) {
      debug("no routes defines on app");
      done();
      return;
    }
    router.handle(req, res, done);
  };
  \<close>
  \<open>RH\<close> is \<open>handle\<close> of the routers.  Without a callback the right operand of \<open>||\<close> is
  evaluated: \<open>this.get("env")\<close> reads the setting, then \<open>logerror\<close> is looked up, a
  name that no source file declares, and the \<open>ReferenceError\<close> leaves \<open>handle\<close> before
  anything is dispatched.
\<close>

definition app_handle ::
  "(router \<Rightarrow> reqres \<Rightarrow> cont \<Rightarrow> answer) \<Rightarrow> env \<Rightarrow> world \<Rightarrow> nat
     \<Rightarrow> reqres \<Rightarrow> cont option \<Rightarrow> answer" where
  "app_handle RH E w this st callback =
     (let router = own_router (apps w this)
      in case callback of
           None \<Rightarrow> Some [Uncaught (ReferenceError ''logerror is not defined'')]
         | Some done \<Rightarrow>
             (case router of
                None \<Rightarrow> done Undefined st
              | Some r \<Rightarrow> RH r st done))"

text \<open>
  \<open>handle\<close> of the applications of a heap.  A router reaches the sub-applications
  through the Layers that hold them; \<open>handle_upto n\<close> follows such Layers \<open>n\<close> deep and
  has no answer beyond that.
\<close>

primrec handle_upto ::
  "nat \<Rightarrow> env \<Rightarrow> world \<Rightarrow> nat \<Rightarrow> reqres \<Rightarrow> cont option \<Rightarrow> answer" where
  "handle_upto 0 E w = app_handle (Router_handle (\<lambda>c st cb. None) E w) E w"
| "handle_upto (Suc n) E w = app_handle (Router_handle (handle_upto n E w) E w) E w"

text \<open>
  Modelled from the spec: the path matcher of lib/router for literal patterns
  (section 4.1).  Literal segments match verbatim, case-insensitively unless
  \<open>caseSensitive\<close>; unless \<open>strict\<close>, a trailing \<open>/\<close> is optional; a prefix match must
  end at a segment boundary and leaves the unconsumed suffix as remainder; with
  \<open>end\<close> the whole path must be consumed.
\<close>

definition literal_match :: "bool \<Rightarrow> bool \<Rightarrow> bool \<Rightarrow> jsval \<Rightarrow> string \<Rightarrow> string option" where
  "literal_match cs strct whole pat p =
     (case pat of
        JStr s \<Rightarrow>
          (let s' = (if \<not> strct \<and> s \<noteq> [] \<and> last s = CHR ''/'' then butlast s else s);
               fold_case = (if cs then id else toLowerCase);
               rest = drop (length s') p
           in if length s' \<le> length p \<and> fold_case (take (length s') p) = fold_case s'
                 \<and> (if whole then rest = [] \<or> (\<not> strct \<and> rest = ''/'')
                     else rest = [] \<or> hd rest = CHR ''/'')
              then Some rest else None)
      | _ \<Rightarrow> None)"

section \<open>Notions used to state the properties\<close>

text \<open>
  A value that \<open>app.use\<close> takes for an application: it is truthy and so are its
  \<open>handle\<close> and \<open>set\<close>.
\<close>

definition mountable :: "jsval \<Rightarrow> bool" where
  "mountable fn = (truthy fn \<and> truthy (get_member fn ''handle'') \<and> truthy (get_member fn ''set''))"

text \<open>The handler of the Layer that \<open>app.use\<close> registers for one element \<open>fn\<close>.\<close>

definition use_handler :: "jsval \<Rightarrow> handler" where
  "use_handler fn =
     (case fn of
        JApp c \<Rightarrow> MountedApp c
      | _ \<Rightarrow> if mountable fn then MountedObject fn else Middleware fn)"

text \<open>The heap in which application \<open>c\<close> has no listener for \<open>mount\<close>.\<close>

definition silence :: "world \<Rightarrow> nat \<Rightarrow> world" where
  "silence w c = upd_app w c (\<lambda>x. x\<lparr>mount_listeners := []\<rparr>)"

text \<open>Application \<open>a\<close> with other settings and other prototype links, all else equal.\<close>

definition touch ::
  "world \<Rightarrow> nat \<Rightarrow> (string \<rightharpoonup> jsval) \<Rightarrow> (proto_kind \<Rightarrow> nat option) \<Rightarrow> world" where
  "touch w a S P = upd_app w a (\<lambda>x. x\<lparr>settings := S, protos := P\<rparr>)"

text \<open>A callback that does nothing but record that it was called, with what.\<close>

definition probe :: cont where
  "probe e s = Some [Called e s]"

text \<open>Every recorded call of a callback satisfies \<open>P\<close>.\<close>

definition calls_ok :: "(jsval \<Rightarrow> reqres \<Rightarrow> bool) \<Rightarrow> answer \<Rightarrow> bool" where
  "calls_ok P ans =
     (case ans of
        None \<Rightarrow> True
      | Some evs \<Rightarrow> list_all (\<lambda>ev. case ev of Called e s \<Rightarrow> P e s | _ \<Rightarrow> True) evs)"

section \<open>Concrete heaps, collaborators and requests\<close>

text \<open>Helpers that return opaque host functions; \<open>NODE_ENV\<close> is not set.\<close>

definition ext0 :: ext where
  "ext0 =
     \<lparr>compileETag = (\<lambda>v. Builtin ''etag''), compileQueryParser = (\<lambda>v. Builtin ''qs''),
      compileTrust = (\<lambda>v. Builtin ''trust''), node_env = Undefined, View = Builtin ''View'',
      resolve_views = JStr ''/views''\<rparr>"

text \<open>The heap before any application exists.\<close>

definition world0 :: world where
  "world0 =
     \<lparr>apps = (\<lambda>a. blank_app), next_app = 0,
      routes = (\<lambda>r. \<lparr>rpath = Undefined, rstack = []\<rparr>), next_route = 0,
      user_assign = (\<lambda>fn k v. None), user_emit = (\<lambda>fn. None)\<rparr>"

text \<open>
  \<open>world1\<close>: one application, \<open>0\<close>.  \<open>world2\<close>: a second one, \<open>1\<close>.  \<open>world3\<close>:
  application \<open>0\<close> has enabled case sensitive routing.  \<open>world4\<close>: application \<open>0\<close> has
  mounted application \<open>1\<close> at \<open>/c\<close>.  \<open>world5\<close>: application \<open>1\<close> has then registered the
  function \<open>7\<close> at \<open>/Foo\<close>.  \<open>world4s\<close> and \<open>world5s\<close>: the same, but application \<open>1\<close> had
  no listener for \<open>mount\<close> when it was mounted.
\<close>

definition world1 :: world where
  "world1 = snd (createApplication ext0 world0)"

definition world2 :: world where
  "world2 = snd (createApplication ext0 world1)"

definition world3 :: world where
  "world3 = enable ext0 world2 0 ''case sensitive routing''"

definition world4 :: world where
  "world4 = snd (app_use world3 0 [JStr ''/c'', JApp 1])"

definition world5 :: world where
  "world5 = snd (app_use world4 1 [JStr ''/Foo'', JFun 7])"

definition world4s :: world where
  "world4s = snd (app_use (silence world3 1) 0 [JStr ''/c'', JApp 1])"

definition world5s :: world where
  "world5s = snd (app_use world4s 1 [JStr ''/Foo'', JFun 7])"

text \<open>
  Collaborators: every user function ends the exchange; the query middleware calls
  \<open>next()\<close>; the init middleware of application \<open>a\<close> installs the prototypes of \<open>a\<close> on
  the pair and calls \<open>next()\<close>; the \<open>handle\<close> of a mounted object calls its callback;
  paths are matched literally.
\<close>

definition env0 :: env where
  "env0 =
     \<lparr>fun_beh = (\<lambda>v. Plain NoNext),
      query_beh = (\<lambda>v s. CallNext Undefined s),
      init_beh = (\<lambda>a s. CallNext Undefined (s\<lparr>req_proto := Some a, res_proto := Some a\<rparr>)),
      obj_beh = (\<lambda>v s. CallNext Undefined s),
      matcher = literal_match\<rparr>"

text \<open>
  \<open>GET /c/foo\<close> as the transport hands it over (\<open>request0\<close>), as it is once the init
  middleware of application \<open>0\<close> has run (\<open>entry0\<close>), and as the Layer mounted at \<open>/c\<close>
  sees it (\<open>inner0\<close>).
\<close>

definition request0 :: reqres where
  "request0 = \<lparr>url = ''/c/foo'', req_method = ''get'', req_proto = None, res_proto = None\<rparr>"

definition entry0 :: reqres where
  "entry0 = \<lparr>url = ''/c/foo'', req_method = ''get'', req_proto = Some 0, res_proto = Some 0\<rparr>"

definition inner0 :: reqres where
  "inner0 = \<lparr>url = ''/foo'', req_method = ''get'', req_proto = Some 0, res_proto = Some 0\<rparr>"

section \<open>Properties of the request helpers\<close>

lemma toLowerCase_Referer: "toLowerCase ''Referer'' = ''referer''"
  unfolding toLowerCase_def by code_simp

lemma toLowerCase_Referrer: "toLowerCase ''Referrer'' = ''referrer''"
  unfolding toLowerCase_def by code_simp

lemma header_function_referer: "get_prop header_function ''referer'' = Undefined"
  by (simp add: get_prop_def header_function_def object_methods_def function_methods_def)

text \<open>
  Both spellings take the same branch, and that branch never reads
  \<open>this.headers.referer\<close>: it yields the header stored under \<open>referrer\<close> when that is
  truthy, and \<open>undefined\<close> otherwise.
\<close>

lemma header_referer_branch:
  "header this (JStr ''Referer'') =
     Inr (if truthy (get_prop (headers this) ''referrer'')
          then get_prop (headers this) ''referrer'' else Undefined)"
  by (simp add: header_def toLowerCase_Referer js_or_def header_function_referer)

lemma header_spellings_agree:
  "header this (JStr ''Referer'') = header this (JStr ''Referrer'')"
  by (simp add: header_def toLowerCase_Referer toLowerCase_Referrer)

lemma header_default_branch:
  "s \<noteq> [] \<Longrightarrow> toLowerCase s \<noteq> ''referer'' \<Longrightarrow> toLowerCase s \<noteq> ''referrer'' \<Longrightarrow>
   header this (JStr s) = Inr (get_prop (headers this) (toLowerCase s))"
  by (simp add: header_def)

lemma header_rejects_non_string:
  "(\<forall>s. name \<noteq> JStr s) \<Longrightarrow> \<exists>msg. header this name = Inl (TypeError msg)"
  by (cases name) (simp_all add: header_def)

text \<open>
  C9.  The claim: when the header bag holds \<open>referer\<close> with value \<open>v\<close>,
  \<open>req.get("Referer")\<close> returns \<open>v\<close>.  On the code it does not: with the bag
  \<open>{referer: "http://example.com/"}\<close> the call returns \<open>undefined\<close>, because the
  fallback operand reads the property \<open>referer\<close> of the function \<open>this.header\<close>
  instead of the header bag \<open>this.headers\<close>.
\<close>

theorem header_referer_lost:
  "header \<lparr>headers = \<lparr>own = [(''referer'', JStr ''http://example.com/'')],
                                 inherited = object_prototype\<rparr>,
           params = None, body = None, query = None\<rparr> (JStr ''Referer'')
     = Inr Undefined"
  by (simp add: header_referer_branch get_prop_def object_prototype_def object_methods_def)





section \<open>Properties of registration\<close>

subsection \<open>What the updates leave alone\<close>

lemma apps_upd_app: "apps (upd_app w a f) b = (if b = a then f (apps w a) else apps w b)"
  by (simp add: upd_app_def)

lemma upd_app_fields:
  "next_app (upd_app w a f) = next_app w" "routes (upd_app w a f) = routes w"
  "next_route (upd_app w a f) = next_route w" "user_emit (upd_app w a f) = user_emit w"
  "user_assign (upd_app w a f) = user_assign w"
  by (simp_all add: upd_app_def)

lemma upd_app_sel:
  "settings (apps (upd_app w a f) b) = (if b = a then settings (f (apps w a)) else settings (apps w b))"
  "protos (apps (upd_app w a f) b) = (if b = a then protos (f (apps w a)) else protos (apps w b))"
  "own_router (apps (upd_app w a f) b) =
     (if b = a then own_router (f (apps w a)) else own_router (apps w b))"
  "mount_listeners (apps (upd_app w a f) b) =
     (if b = a then mount_listeners (f (apps w a)) else mount_listeners (apps w b))"
  "emitted (apps (upd_app w a f) b) = (if b = a then emitted (f (apps w a)) else emitted (apps w b))"
  by (simp_all add: upd_app_def)

lemma lazyrouter_router: "\<exists>r. own_router (apps (lazyrouter w this) this) = Some r"
  by (cases "own_router (apps w this)")
     (simp_all add: lazyrouter_def set_router_def apps_upd_app Let_def)

lemma lazyrouter_idle: "own_router (apps w this) = Some r \<Longrightarrow> lazyrouter w this = w"
  by (simp add: lazyrouter_def)

lemma lazyrouter_fields:
  "emitted (apps (lazyrouter w this) b) = emitted (apps w b)"
  "routes (lazyrouter w this) = routes w"
  "own_router (apps (lazyrouter w this) b) =
     (if b = this then
        Some (case own_router (apps w this) of
                Some r \<Rightarrow> r
              | None \<Rightarrow> \<lparr>caseSensitive = enabled w this ''case sensitive routing'',
                          strict = enabled w this ''strict routing'',
                          stack = [\<lparr>lpath = JStr ''/'',
                                    lhandle = QueryMw (settings_get w this ''query parser fn'')\<rparr>,
                                   \<lparr>lpath = JStr ''/'', lhandle = InitMw this\<rparr>]\<rparr>)
      else own_router (apps w b))"
  by (auto simp: lazyrouter_def Let_def set_router_def apps_upd_app upd_app_fields Router_use_def
           split: option.splits)

text \<open>
  The \<open>mount\<close> listeners change nothing but the settings and the prototype links of the
  application they run on.
\<close>

lemma touch_same: "touch w a (settings (apps w a)) (protos (apps w a)) = w"
  by (simp add: touch_def upd_app_def)

lemma touch_touch: "touch (touch w a S P) a S' P' = touch w a S' P'"
  by (simp add: touch_def upd_app_def)

lemma touch_fields:
  "own_router (apps (touch w a S P) b) = own_router (apps w b)"
  "emitted (apps (touch w a S P) b) = emitted (apps w b)"
  "mount_listeners (apps (touch w a S P) b) = mount_listeners (apps w b)"
  "routes (touch w a S P) = routes w"
  "next_app (touch w a S P) = next_app w"
  by (simp_all add: touch_def apps_upd_app upd_app_fields)

lemma setPrototypeOf_touch: "\<exists>S P. snd (setPrototypeOf k w a p) = touch w a S P"
proof (cases "a \<in> set (chain_of w k p)")
  case True
  then have "snd (setPrototypeOf k w a p) = touch w a (settings (apps w a)) (protos (apps w a))"
    by (simp add: setPrototypeOf_def touch_same)
  then show ?thesis by blast
next
  case False
  then have "snd (setPrototypeOf k w a p) =
               touch w a (settings (apps w a)) ((protos (apps w a))(k := Some p))"
    by (simp add: setPrototypeOf_def touch_def upd_app_def)
  then show ?thesis by blast
qed

lemma and_then_touch:
  assumes "\<exists>S P. snd r = touch w a S P"
      and "\<And>w'. \<exists>S P. snd (f w') = touch w' a S P"
  shows "\<exists>S P. snd (and_then r f) = touch w a S P"
proof (cases "fst r")
  case None
  from assms(1) obtain S P where r: "snd r = touch w a S P" by blast
  from assms(2) [of "snd r"] obtain S' P' where "snd (f (snd r)) = touch (snd r) a S' P'"
    by blast
  then have "snd (and_then r f) = touch w a S' P'"
    by (simp add: and_then_def None r touch_touch)
  then show ?thesis by blast
next
  case (Some e)
  with assms(1) show ?thesis by (simp add: and_then_def)
qed

lemma delete_own_touch: "\<exists>S P. delete_own w a k = touch w a S P"
proof -
  have "delete_own w a k = touch w a ((settings (apps w a))(k := None)) (protos (apps w a))"
    by (simp add: delete_own_def touch_def upd_app_def)
  then show ?thesis by blast
qed

lemma onmount_touch: "\<exists>S P. snd (onmount w a p) = touch w a S P"
proof -
  define w1 where "w1 = (if settings_get w a trustProxyDefaultSymbol = JBool True
                   \<and> typeof (settings_get w p ''trust proxy fn'') = ''function''
                then delete_own (delete_own w a ''trust proxy'') a ''trust proxy fn''
                else w)"
  have "\<exists>S P. w1 = touch w a S P"
  proof (cases "settings_get w a trustProxyDefaultSymbol = JBool True
                   \<and> typeof (settings_get w p ''trust proxy fn'') = ''function''")
    case True
    obtain S P where 1: "delete_own w a ''trust proxy'' = touch w a S P"
      using delete_own_touch by blast
    obtain S' P' where
      "delete_own (touch w a S P) a ''trust proxy fn'' = touch (touch w a S P) a S' P'"
      using delete_own_touch by blast
    with True 1 have "w1 = touch w a S' P'" by (simp add: w1_def touch_touch)
    then show ?thesis by blast
  next
    case False
    then have "w1 = w" unfolding w1_def by (rule if_not_P)
    then have "w1 = touch w a (settings (apps w a)) (protos (apps w a))"
      by (simp add: touch_same)
    then show ?thesis by blast
  qed
  then obtain S P where w1t: "w1 = touch w a S P" by blast
  have "\<exists>S' P'. snd (onmount w a p) = touch w1 a S' P'"
    unfolding onmount_def Let_def w1_def [symmetric]
    by (intro and_then_touch setPrototypeOf_touch)
  then show ?thesis by (auto simp: w1t touch_touch)
qed

lemma run_listeners_touch: "\<exists>S P. snd (run_listeners ls w a p) = touch w a S P"
proof (induction ls arbitrary: w)
  case Nil
  have "snd (run_listeners [] w a p) = touch w a (settings (apps w a)) (protos (apps w a))"
    by (simp add: touch_same)
  then show ?case by blast
next
  case (Cons l ls)
  have "\<exists>S P. snd (and_then (onmount w a p) (\<lambda>w'. run_listeners ls w' a p)) = touch w a S P"
    by (intro and_then_touch onmount_touch Cons.IH)
  then show ?case by (cases l) simp
qed

lemma emit_mount_router: "own_router (apps (snd (emit_mount w a p)) b) = own_router (apps w b)"
proof -
  obtain S P where
    "snd (emit_mount w a p) =
       touch (upd_app w a (\<lambda>x. x\<lparr>emitted := emitted x @ [(''mount'', p)]\<rparr>)) a S P"
    unfolding emit_mount_def using run_listeners_touch by blast
  then show ?thesis by (simp add: touch_fields upd_app_sel)
qed

subsection \<open>The Layers that use appends\<close>

lemma prop_app:
  "truthy (get_member (JApp c) ''handle'')" "truthy (get_member (JApp c) ''set'')"
  "typeof (get_member (JApp c) ''emit'') = ''function''"
  by (simp_all add: get_member_def app_members_def)

lemma mountable_app: "mountable (JApp c)"
  by (simp add: mountable_def prop_app)

lemma mountable_cases:
  "mountable fn \<Longrightarrow> (\<exists>c. fn = JApp c) \<or> (\<exists>c ps. fn = JObj c ps)"
  by (cases fn) (simp_all add: mountable_def get_member_def)

lemma use_one_router:
  assumes "use_one w this p fn = (None, w')" and "own_router (apps w this) = Some r"
  shows "own_router (apps w' this) = Some (Router_use r p (use_handler fn))"
proof (cases "\<exists>c. fn = JApp c")
  case True
  then obtain c where fn: "fn = JApp c" by blast
  have "w' = snd (use_one w this p fn)" using assms(1) by simp
  then show ?thesis
    using assms(2)
    by (simp add: fn use_one_def Let_def emit_mount_router apps_upd_app use_handler_def prop_app)
next
  case False
  show ?thesis
  proof (cases "mountable fn")
    case True
    with False obtain c ps where fn: "fn = JObj c ps" using mountable_cases by blast
    from True have "w' = upd_app w this
                      (\<lambda>x. x\<lparr>own_router := Some (Router_use r p (MountedObject fn))\<rparr>)"
      using assms
      by (auto simp: fn use_one_def mountable_def Let_def and_then_def
               split: if_splits option.splits)
    with True show ?thesis by (simp add: fn use_handler_def apps_upd_app)
  next
    case nm: False
    then have h: "use_handler fn = Middleware fn"
      by (cases fn) (simp_all add: use_handler_def mountable_app)
    from nm assms show ?thesis
      by (auto simp: h use_one_def mountable_def Router_use_value_def set_router_def apps_upd_app
               split: if_splits)
  qed
qed

lemma use_each_router:
  "use_each w this p fns = (None, w') \<Longrightarrow> own_router (apps w this) = Some r \<Longrightarrow>
   own_router (apps w' this) =
     Some (r\<lparr>stack := stack r @ map (\<lambda>fn. \<lparr>lpath = p, lhandle = use_handler fn\<rparr>) fns\<rparr>)"
proof (induction fns arbitrary: w r)
  case Nil
  then show ?case by simp
next
  case (Cons fn fns)
  obtain e w1 where one: "use_one w this p fn = (e, w1)" by (cases "use_one w this p fn")
  with Cons.prems(1) have e: "e = None" and rest: "use_each w1 this p fns = (None, w')"
    by (auto simp: and_then_def split: option.splits)
  from use_one_router [OF one [unfolded e] Cons.prems(2)]
  have "own_router (apps w1 this) = Some (Router_use r p (use_handler fn))" .
  from Cons.IH [OF rest this] show ?case by (simp add: Router_use_def)
qed

lemma first_leaf_function: "typeof v = ''function'' \<Longrightarrow> first_leaf v = v"
  by (cases v) simp_all

text \<open>
  C4.  As amended: for every call of \<open>use\<close> that returns, the router's stack afterwards
  is its stack after \<open>lazyrouter\<close> followed by one Layer for each element of the
  flattened handler arguments, in call order, all at the same path; the handler
  arguments are the arguments behind the path, and the first argument is the path
  unless it is a function or an array whose chain of first elements ends in a
  function, in which case the path is \<open>/\<close> and every argument is a handler argument.
\<close>

theorem use_appends_layers:
  assumes "app_use w this args = (None, w')"
  shows "(\<exists>r. own_router (apps (lazyrouter w this) this) = Some r
            \<and> own_router (apps w' this) =
                Some (r\<lparr>stack := stack r @
                   map (\<lambda>fn. \<lparr>lpath = use_path args, lhandle = use_handler fn\<rparr>)
                       (flatten (drop (use_offset args) args))\<rparr>))
         \<and> (typeof (first_leaf (use_fn args)) = ''function''
              \<longrightarrow> use_path args = JStr ''/'' \<and> use_offset args = 0)
         \<and> (typeof (first_leaf (use_fn args)) \<noteq> ''function''
              \<longrightarrow> use_path args = use_fn args \<and> use_offset args = 1)"
proof -
  obtain r where r: "own_router (apps (lazyrouter w this) this) = Some r"
    using lazyrouter_router by blast
  from assms have "use_each (lazyrouter w this) this (use_path args)
                     (flatten (drop (use_offset args) args)) = (None, w')"
    by (auto simp: app_use_def Let_def split: if_splits)
  from use_each_router [OF this r] r show ?thesis
    by (auto simp: use_path_def use_offset_def first_leaf_function)
qed

subsection \<open>Calls without a handler\<close>




text \<open>
  An object that has \<open>handle\<close> and \<open>set\<close>, and accepts the two assignments, is
  registered behind the mount adapter whatever \<open>handle\<close> and \<open>set\<close> are; the call then
  fails on \<open>fn.emit\<close> when that is not a function, and otherwise ends as the object's
  \<open>emit\<close> ends.
\<close>

lemma use_one_lookalike:
  assumes "mountable (JObj c ps)" and "own_router (apps w this) = Some r"
      and "user_assign w (JObj c ps) ''mountpath'' p = None"
      and "user_assign w (JObj c ps) ''parent'' (JApp this) = None"
  shows "use_one w this p (JObj c ps) =
           (if typeof (get_member (JObj c ps) ''emit'') \<noteq> ''function''
            then Some (Thrown (TypeError ''fn.emit is not a function''))
            else user_emit w (JObj c ps),
            upd_app w this
              (\<lambda>x. x\<lparr>own_router := Some (Router_use r p (MountedObject (JObj c ps)))\<rparr>))"
  using assms by (auto simp: use_one_def mountable_def Let_def and_then_def)


section \<open>Properties of route lookup\<close>

lemma find_route_append:
  "find_route (ls @ [\<lparr>lpath = p, lhandle = RouteH rid\<rparr>]) p =
     (case find_route ls p of Some x \<Rightarrow> Some x | None \<Rightarrow> Some rid)"
  by (induction ls) (auto split: handler.splits)

lemma Router_route_found:
  assumes "Router_route w this r p = (rid, w1)" and "own_router (apps w this) = Some r"
  shows "\<exists>r1. own_router (apps w1 this) = Some r1 \<and> find_route (stack r1) p = Some rid"
proof (cases "find_route (stack r) p")
  case (Some x)
  with assms show ?thesis by (simp add: Router_route_def)
next
  case None
  with assms show ?thesis
    by (auto simp: Router_route_def Let_def set_router_def apps_upd_app Router_use_def
          find_route_append)
qed

lemma app_route_found:
  assumes "app_route w this p = (x, w1)"
  shows "\<exists>r1 rid. x = Some rid \<and> own_router (apps w1 this) = Some r1
           \<and> find_route (stack r1) p = Some rid"
proof -
  obtain r where r: "own_router (apps (lazyrouter w this) this) = Some r"
    using lazyrouter_router by blast
  obtain rid w2 where rr: "Router_route (lazyrouter w this) this r p = (rid, w2)"
    by (cases "Router_route (lazyrouter w this) this r p")
  from assms r rr have "x = Some rid" and "w1 = w2"
    by (simp_all add: app_route_def Let_def)
  with Router_route_found [OF rr r] show ?thesis by simp
qed

lemma app_route_hit:
  assumes "own_router (apps w this) = Some r" and "find_route (stack r) p = Some rid"
  shows "app_route w this p = (Some rid, w)"
  using assms by (simp add: app_route_def Let_def lazyrouter_idle Router_route_def)

text \<open>
  C6.  Calling \<open>route(p)\<close> a second time returns the Route the first call returned
  and changes nothing; so two registrations through \<open>app[method](p, ...)\<close> end up, in
  order, on the stack of that one Route.
\<close>

theorem route_idempotent:
  "fst (app_route (snd (app_route w this p)) this p) = fst (app_route w this p)
   \<and> snd (app_route (snd (app_route w this p)) this p) = snd (app_route w this p)
   \<and> (\<exists>rid. fst (app_route w this p) = Some rid
        \<and> fst (app_route (app_verb w this m p [h1]) this p) = Some rid
        \<and> rstack (routes (app_verb (app_verb w this m p [h1]) this m p [h2]) rid) =
            rstack (routes (snd (app_route w this p)) rid) @ [(m, h1), (m, h2)])"
proof -
  obtain x w1 where a: "app_route w this p = (x, w1)" by (cases "app_route w this p")
  from app_route_found [OF a] obtain r1 rid
    where x: "x = Some rid" and r1: "own_router (apps w1 this) = Some r1"
      and f: "find_route (stack r1) p = Some rid" by blast
  have again: "app_route w1 this p = (Some rid, w1)"
    by (rule app_route_hit [OF r1 f])
  have v1: "app_verb w this m p [h1] = Route_verb w1 rid m [h1]"
    by (simp add: app_verb_def a x)
  have r1': "own_router (apps (Route_verb w1 rid m [h1]) this) = Some r1"
    by (simp add: Route_verb_def r1)
  have again': "app_route (Route_verb w1 rid m [h1]) this p = (Some rid, Route_verb w1 rid m [h1])"
    by (rule app_route_hit [OF r1' f])
  have v2: "app_verb (Route_verb w1 rid m [h1]) this m p [h2] =
              Route_verb (Route_verb w1 rid m [h1]) rid m [h2]"
    by (simp add: app_verb_def again')
  show ?thesis
    by (simp add: a x again v1 v2 again') (simp add: Route_verb_def)
qed

section \<open>Properties of dispatch\<close>

subsection \<open>Answers\<close>

lemma pre_pre: "pre xs (pre ys ans) = pre (xs @ ys) ans"
  by (cases ans) (simp_all add: pre_def)

lemma handle_upto_unfold:
  "handle_upto n E w this st cb =
     app_handle (Router_handle (case n of 0 \<Rightarrow> (\<lambda>c st cb. None) | Suc m \<Rightarrow> handle_upto m E w) E w)
       E w this st cb"
  by (cases n) simp_all

subsection \<open>The entry points\<close>

text \<open>
  C2.  When the application has no router (or its router has no Layer), \<open>handle\<close> with
  a callback is exactly one call of that callback, with \<open>undefined\<close> as the error and
  the pair untouched; no handler runs before it.
\<close>

theorem handle_without_router:
  assumes "own_router (apps w this) = None
           \<or> (\<exists>r. own_router (apps w this) = Some r \<and> stack r = [])"
  shows "handle_upto n E w this st (Some done) = done Undefined st"
  using assms
  by (auto simp: handle_upto_unfold [of n] app_handle_def Router_handle_def)

text \<open>
  C8.  What \<open>createApplication\<close> returns is a function value, a new application;
  calling an application with \<open>(req, res, next)\<close> is calling its \<open>handle\<close> with the
  same arguments, whatever the heap, the pair and the continuation (present or not);
  and \<open>use\<close> registers it through the mount adapter.
\<close>

theorem app_is_handler:
  "typeof (fst (createApplication X w)) = ''function''
   \<and> fst (createApplication X w) = JApp (next_app w)
   \<and> app_fn (handle_upto n E w) a st next = handle_upto n E w a st next
   \<and> use_handler (fst (createApplication X w)) = MountedApp (next_app w)"
  by (simp add: createApplication_def Let_def app_fn_def use_handler_def)

subsection \<open>The mount adapter\<close>

text \<open>
  C1.  Let the pair carry an application \<open>a\<close> (\<open>req.app\<close> is defined), and let the
  child's \<open>handle\<close>, whatever callback it is given, run \<open>tr\<close> and then call that callback
  with the error \<open>e\<close> on the pair \<open>s1\<close> (the child exhausts its stack).  Then the adapter
  runs \<open>tr\<close> and calls the parent's \<open>next\<close> with \<open>e\<close>; and a parent loop that reaches the
  Layer of the mounted child goes on, after \<open>tr\<close>, with the Layers behind it, \<open>e\<close>
  pending, its own \<open>done\<close> still to be reached only at the end of that search.
\<close>

theorem mount_exhaustion_resumes_parent:
  assumes exhaust: "\<forall>k. H c (st\<lparr>url := rest\<rparr>) (Some k) = pre tr (k e s1)"
      and orig: "req_app st = Some a"
      and match: "matcher E (caseSensitive r) (strict r) False p (url st) = Some rest"
  shows "mounted_app H c (st\<lparr>url := rest\<rparr>) next =
           pre tr (next e (s1\<lparr>req_proto := Some a, res_proto := Some a\<rparr>))
       \<and> Router_walk H E rts r (\<lparr>lpath = p, lhandle = MountedApp c\<rparr> # post) st Undefined done =
           pre (Ran (MountedApp c) # tr)
             (Router_walk H E rts r post
                (s1\<lparr>req_proto := Some a, res_proto := Some a, url := url st\<rparr>) e done)"
proof -
  have m: "\<And>next. mounted_app H c (st\<lparr>url := rest\<rparr>) next =
           pre tr (next e (s1\<lparr>req_proto := Some a, res_proto := Some a\<rparr>))"
    using orig by (simp add: mounted_app_def exhaust req_app_def)
  show ?thesis
    by (simp add: m match pre_pre)
qed

subsection \<open>Where recorded calls come from\<close>

lemma calls_ok_None: "calls_ok P None"
  by (simp add: calls_ok_def)

lemma calls_ok_Nil: "calls_ok P (Some [])"
  by (simp add: calls_ok_def)

lemma calls_ok_Uncaught: "calls_ok P (Some [Uncaught x])"
  by (simp add: calls_ok_def)

lemma calls_ok_Ran: "calls_ok P (pre [Ran h] ans) = calls_ok P ans"
  by (cases ans) (simp_all add: calls_ok_def pre_def)

lemma calls_ok_act:
  "(\<And>e s. calls_ok P (next e s)) \<Longrightarrow> calls_ok P (act a next)"
  by (cases a) (simp_all add: act_def calls_ok_Nil)

lemma calls_ok_Route_dispatch:
  "(\<And>e s. calls_ok P (next e s)) \<Longrightarrow> calls_ok P (Route_dispatch E hh es st err next)"
proof (induction es arbitrary: st err)
  case Nil
  then show ?case by simp
next
  case (Cons x es)
  obtain m h where x: "x = (m, h)" by (cases x)
  show ?case
    unfolding x Route_dispatch.simps
    by (auto simp: calls_ok_Ran Cons split: behaviour.splits intro!: calls_ok_act)
qed

lemma calls_ok_mounted_app:
  assumes "\<And>c s k. (\<And>e s'. calls_ok P (k e s')) \<Longrightarrow> calls_ok P (H c s (Some k))"
      and "\<And>e s. calls_ok P (next e s)"
  shows "calls_ok P (mounted_app H c st next)"
  unfolding mounted_app_def Let_def
  by (rule assms(1)) (simp add: calls_ok_Uncaught assms(2) split: option.splits)

lemma calls_ok_mounted_object:
  assumes "\<And>e s. calls_ok P (next e s)" and "\<And>e s. calls_ok P (thrown e s)"
  shows "calls_ok P (mounted_object E v st next thrown)"
  unfolding mounted_object_def Let_def
  by (simp add: calls_ok_Uncaught calls_ok_Nil assms split: option.splits action.splits)

lemma calls_ok_Router_walk:
  assumes H: "\<And>c s k. (\<And>e s'. calls_ok P (k e s')) \<Longrightarrow> calls_ok P (H c s (Some k))"
      and d: "\<And>e s. calls_ok P (done e s)"
  shows "calls_ok P (Router_walk H E rts r ls st err done)"
proof (induction ls arbitrary: st err)
  case Nil
  then show ?case by (simp add: d)
next
  case (Cons l ls)
  show ?case
    unfolding Router_walk.simps
    by (auto simp: calls_ok_Ran Cons app_fn_def
             split: option.splits handler.splits jsval.splits behaviour.splits
             intro!: calls_ok_act calls_ok_mounted_app calls_ok_mounted_object
                     calls_ok_Route_dispatch H)
qed

lemma calls_ok_handle_upto:
  "(\<And>e s. calls_ok P (k e s)) \<Longrightarrow> calls_ok P (handle_upto n E w c st (Some k))"
proof (induction n arbitrary: c st k)
  case 0
  show ?case
    by (auto simp: app_handle_def Router_handle_def 0 calls_ok_None
             split: option.splits intro!: calls_ok_Router_walk)
next
  case (Suc n)
  show ?case
    by (auto simp: app_handle_def Router_handle_def Suc
             split: option.splits intro!: calls_ok_Router_walk)
qed

text \<open>
  C3.  Let the pair enter the adapter with the prototypes of application \<open>a\<close> (the
  parent's), and let the continuation it hands on only record its call.  Whatever the
  child and the applications below it do to the pair, every recorded call, that is
  every return to the parent's loop, with or without an error, sees the request and
  the response with the prototypes they had on entry.
\<close>

theorem mount_restores_prototypes:
  assumes "req_proto st = Some a" and "res_proto st = Some a"
      and "mounted_app (handle_upto n E w) c st probe = Some evs"
      and "Called e s \<in> set evs"
  shows "req_proto s = req_proto st \<and> res_proto s = res_proto st"
proof -
  let ?P = "\<lambda>e s. req_proto s = Some a \<and> res_proto s = Some a"
  have "mounted_app (handle_upto n E w) c st probe =
          handle_upto n E w c st
            (Some (\<lambda>err st'. probe err (st'\<lparr>req_proto := Some a, res_proto := Some a\<rparr>)))"
    by (simp add: mounted_app_def req_app_def assms(1))
  moreover have "calls_ok ?P (handle_upto n E w c st
            (Some (\<lambda>err st'. probe err (st'\<lparr>req_proto := Some a, res_proto := Some a\<rparr>))))"
    by (rule calls_ok_handle_upto) (simp add: probe_def calls_ok_def)
  ultimately have "calls_ok ?P (Some evs)"
    using assms(3) by simp
  with assms show ?thesis
    by (auto simp: calls_ok_def list_all_iff split: event.splits)
qed

subsection \<open>Dispatch reads only the routers and the routes\<close>

lemma Router_walk_cong:
  assumes "\<And>c s k. H c s (Some k) = H' c s (Some k)"
  shows "Router_walk H E rts r ls st err done = Router_walk H' E rts r ls st err done"
proof (induction ls arbitrary: st err)
  case Nil
  then show ?case by simp
next
  case (Cons l ls)
  show ?case
    unfolding Router_walk.simps
    by (simp add: Cons app_fn_def mounted_app_def assms
             split: option.splits handler.splits jsval.splits behaviour.splits)
qed

lemma handle_upto_cong:
  assumes "\<And>b. own_router (apps w b) = own_router (apps w' b)" and "routes w = routes w'"
  shows "handle_upto n E w a st (Some k) = handle_upto n E w' a st (Some k)"
proof (induction n arbitrary: a st k)
  case 0
  show ?case by (simp add: app_handle_def Router_handle_def assms split: option.splits)
next
  case (Suc n)
  have "\<And>r st done. Router_walk (handle_upto n E w) E (routes w') r (stack r) st Undefined done
        = Router_walk (handle_upto n E w') E (routes w') r (stack r) st Undefined done"
    by (rule Router_walk_cong) (rule Suc)
  then show ?case by (simp add: app_handle_def Router_handle_def assms split: option.splits)
qed

section \<open>Properties of the mount event\<close>

lemma and_then_return: "and_then r (\<lambda>w'. (None, w')) = r"
  by (cases r) (simp add: and_then_def split: option.splits)

lemma use_mount:
  assumes "own_router (apps (lazyrouter w this) this) = Some r"
  shows "\<exists>S P. snd (app_use w this [JStr p, JApp c]) =
           touch (upd_app (upd_app (upd_app (lazyrouter w this) c
                     (\<lambda>x. x\<lparr>mountpath := JStr p, parent := Some this\<rparr>))
                   this (\<lambda>x. x\<lparr>own_router := Some (Router_use r (JStr p) (MountedApp c))\<rparr>))
                 c (\<lambda>x. x\<lparr>emitted := emitted x @ [(''mount'', this)]\<rparr>)) c S P"
proof -
  have "app_use w this [JStr p, JApp c] =
          use_one (lazyrouter w this) this (JStr p) (JApp c)"
    by (simp add: app_use_def use_offset_def use_path_def use_fn_def and_then_return)
  then show ?thesis
    by (simp add: use_one_def assms Let_def emit_mount_def run_listeners_touch prop_app)
qed

lemma silence_fields:
  "settings (apps (silence w c) b) = settings (apps w b)"
  "protos (apps (silence w c) b) = protos (apps w b)"
  "own_router (apps (silence w c) b) = own_router (apps w b)"
  "emitted (apps (silence w c) b) = emitted (apps w b)"
  "next_app (silence w c) = next_app w"
  "routes (silence w c) = routes w"
  by (simp_all add: silence_def apps_upd_app upd_app_fields)

lemma silence_settings_get: "settings_get (silence w c) a k = settings_get w a k"
  by (simp add: settings_get_def chain_of_def silence_fields)

lemma use_mount_fields:
  "emitted (apps (snd (app_use w this [JStr p, JApp c])) c) = emitted (apps w c) @ [(''mount'', this)]"
  "routes (snd (app_use w this [JStr p, JApp c])) = routes w"
  "own_router (apps (snd (app_use w this [JStr p, JApp c])) b) =
     (if b = this
      then map_option (\<lambda>r. Router_use r (JStr p) (MountedApp c))
             (own_router (apps (lazyrouter w this) this))
      else own_router (apps w b))"
proof -
  obtain r where r: "own_router (apps (lazyrouter w this) this) = Some r"
    using lazyrouter_router by blast
  from use_mount [OF r] obtain S P where
    u: "snd (app_use w this [JStr p, JApp c]) =
           touch (upd_app (upd_app (upd_app (lazyrouter w this) c
                     (\<lambda>x. x\<lparr>mountpath := JStr p, parent := Some this\<rparr>))
                   this (\<lambda>x. x\<lparr>own_router := Some (Router_use r (JStr p) (MountedApp c))\<rparr>))
                 c (\<lambda>x. x\<lparr>emitted := emitted x @ [(''mount'', this)]\<rparr>)) c S P"
    by blast
  show "emitted (apps (snd (app_use w this [JStr p, JApp c])) c) = emitted (apps w c) @ [(''mount'', this)]"
    by (simp add: u touch_fields apps_upd_app lazyrouter_fields)
  show "routes (snd (app_use w this [JStr p, JApp c])) = routes w"
    by (simp add: u touch_fields upd_app_fields lazyrouter_fields)
  show "own_router (apps (snd (app_use w this [JStr p, JApp c])) b) =
     (if b = this
      then map_option (\<lambda>r. Router_use r (JStr p) (MountedApp c))
             (own_router (apps (lazyrouter w this) this))
      else own_router (apps w b))"
    by (simp add: u touch_fields apps_upd_app r) (simp add: lazyrouter_fields)
qed

text \<open>
  C7.  As amended: mounting a sub-application records exactly one more \<open>mount\<close> event
  on the child, during the call of \<open>use\<close>; and the listeners of that event change no
  router and no route, so that right after the mount every application has the router
  it would have had without listeners and handles every request the same way.
\<close>

theorem mount_event_once:
  "emitted (apps (snd (app_use w this [JStr p, JApp c])) c) = emitted (apps w c) @ [(''mount'', this)]
   \<and> (\<forall>b. own_router (apps (snd (app_use w this [JStr p, JApp c])) b) =
           own_router (apps (snd (app_use (silence w c) this [JStr p, JApp c])) b))
   \<and> routes (snd (app_use w this [JStr p, JApp c])) =
       routes (snd (app_use (silence w c) this [JStr p, JApp c]))
   \<and> handle_upto n E (snd (app_use w this [JStr p, JApp c])) a st (Some k) =
       handle_upto n E (snd (app_use (silence w c) this [JStr p, JApp c])) a st (Some k)"
proof -
  have r: "\<And>b. own_router (apps (snd (app_use w this [JStr p, JApp c])) b) =
           own_router (apps (snd (app_use (silence w c) this [JStr p, JApp c])) b)"
    by (simp add: use_mount_fields lazyrouter_fields silence_fields silence_settings_get enabled_def
          split: option.splits)
  have t: "routes (snd (app_use w this [JStr p, JApp c])) =
       routes (snd (app_use (silence w c) this [JStr p, JApp c]))"
    by (simp add: use_mount_fields silence_fields)
  show ?thesis
    using r t handle_upto_cong [OF r t] by (simp add: use_mount_fields)
qed

section \<open>The concrete heaps\<close>

lemma app_set_upd:
  "app_set X w a k v =
     upd_app w a (settings_update (\<lambda>S.
       if k = ''etag'' then S(k \<mapsto> v, ''etag fn'' \<mapsto> compileETag X v)
       else if k = ''query parser''
         then S(k \<mapsto> v, ''query parser fn'' \<mapsto> compileQueryParser X v)
       else if k = ''trust proxy''
         then S(k \<mapsto> v, ''trust proxy fn'' \<mapsto> compileTrust X v,
                trustProxyDefaultSymbol \<mapsto> JBool False)
       else S(k \<mapsto> v)))"
  by (simp add: app_set_def set_own_def upd_app_def Let_def fun_eq_iff)

lemma and_then_None: "and_then (None, w) f = f w"
  by (simp add: and_then_def)

lemma and_then_Some: "and_then (Some e, w) f = (Some e, w)"
  by (simp add: and_then_def)

lemma object_prototype_settings:
  "map_of object_prototype ''case sensitive routing'' = None"
  "map_of object_prototype ''strict routing'' = None"
  "map_of object_prototype ''trust proxy fn'' = None"
  "map_of object_prototype ''query parser fn'' = None"
  "map_of object_prototype trustProxyDefaultSymbol = None"
  by (simp_all add: object_prototype_def object_methods_def trustProxyDefaultSymbol_def)

lemmas create_rules = createApplication_def defaultConfiguration_def Let_def enable_def
  app_set_upd set_own_def apps_upd_app upd_app_fields blank_app_def ext0_def js_or_def
  trustProxyDefaultSymbol_def

lemmas use_rules = app_use_def use_offset_def use_path_def use_fn_def lazyrouter_def enabled_def
  settings_get_def chain_of_def List.map_filter_simps use_one_def and_then_None and_then_Some
  emit_mount_def onmount_def setPrototypeOf_def delete_own_def Router_use_def Router_use_value_def
  set_router_def object_prototype_settings get_member_def app_members_def
  silence_def Let_def upd_app_sel upd_app_fields

lemma world1_facts:
  "own_router (apps world1 0) = None"
  "next_app world1 = Suc 0"
  "protos (apps world1 0) = (\<lambda>k. None)"
  "settings (apps world1 0) ''case sensitive routing'' = None"
  "settings (apps world1 0) ''strict routing'' = None"
  "settings (apps world1 0) ''query parser fn'' = Some (Builtin ''qs'')"
  "user_assign world1 = (\<lambda>fn k v. None)" "user_emit world1 = (\<lambda>fn. None)"
  by (simp_all add: world1_def world0_def create_rules)

lemma world3_facts:
  "own_router (apps world3 0) = None" "own_router (apps world3 (Suc 0)) = None"
  "next_app world3 = Suc (Suc 0)"
  "protos (apps world3 0) = (\<lambda>k. None)" "protos (apps world3 (Suc 0)) = (\<lambda>k. None)"
  "mount_listeners (apps world3 (Suc 0)) = [Onmount]"
  "settings (apps world3 0) ''case sensitive routing'' = Some (JBool True)"
  "settings (apps world3 0) ''strict routing'' = None"
  "settings (apps world3 0) ''query parser fn'' = Some (Builtin ''qs'')"
  "settings (apps world3 0) ''trust proxy fn'' = Some (Builtin ''trust'')"
  "settings (apps world3 (Suc 0)) ''case sensitive routing'' = None"
  "settings (apps world3 (Suc 0)) ''strict routing'' = None"
  "settings (apps world3 (Suc 0)) ''query parser fn'' = Some (Builtin ''qs'')"
  "settings (apps world3 (Suc 0)) trustProxyDefaultSymbol = Some (JBool True)"
  by (simp_all add: world3_def world2_def world1_def world0_def create_rules)

lemma world4_facts:
  "own_router (apps world4 0) =
     Some \<lparr>caseSensitive = True, strict = False,
           stack = [\<lparr>lpath = JStr ''/'', lhandle = QueryMw (Builtin ''qs'')\<rparr>,
                    \<lparr>lpath = JStr ''/'', lhandle = InitMw 0\<rparr>,
                    \<lparr>lpath = JStr ''/c'', lhandle = MountedApp 1\<rparr>]\<rparr>"
  "own_router (apps world4 (Suc 0)) = None"
  "next_app world4 = Suc (Suc 0)"
  "protos (apps world4 0) Settings = None" "protos (apps world4 (Suc 0)) Settings = Some 0"
  "settings (apps world4 0) ''case sensitive routing'' = Some (JBool True)"
  "settings (apps world4 0) ''strict routing'' = None"
  "settings (apps world4 0) ''query parser fn'' = Some (Builtin ''qs'')"
  "settings (apps world4 (Suc 0)) ''case sensitive routing'' = None"
  "settings (apps world4 (Suc 0)) ''strict routing'' = None"
  "settings (apps world4 (Suc 0)) ''query parser fn'' = Some (Builtin ''qs'')"
  by (simp_all add: world4_def use_rules world3_facts)

lemma world5_facts:
  "own_router (apps world5 0) =
     Some \<lparr>caseSensitive = True, strict = False,
           stack = [\<lparr>lpath = JStr ''/'', lhandle = QueryMw (Builtin ''qs'')\<rparr>,
                    \<lparr>lpath = JStr ''/'', lhandle = InitMw 0\<rparr>,
                    \<lparr>lpath = JStr ''/c'', lhandle = MountedApp 1\<rparr>]\<rparr>"
  "own_router (apps world5 (Suc 0)) =
     Some \<lparr>caseSensitive = True, strict = False,
           stack = [\<lparr>lpath = JStr ''/'', lhandle = QueryMw (Builtin ''qs'')\<rparr>,
                    \<lparr>lpath = JStr ''/'', lhandle = InitMw 1\<rparr>,
                    \<lparr>lpath = JStr ''/Foo'', lhandle = Middleware (JFun 7)\<rparr>]\<rparr>"
  by (simp_all add: world5_def use_rules world4_facts)

lemma world4s_facts:
  "own_router (apps world4s 0) =
     Some \<lparr>caseSensitive = True, strict = False,
           stack = [\<lparr>lpath = JStr ''/'', lhandle = QueryMw (Builtin ''qs'')\<rparr>,
                    \<lparr>lpath = JStr ''/'', lhandle = InitMw 0\<rparr>,
                    \<lparr>lpath = JStr ''/c'', lhandle = MountedApp 1\<rparr>]\<rparr>"
  "own_router (apps world4s (Suc 0)) = None"
  "next_app world4s = Suc (Suc 0)"
  "protos (apps world4s (Suc 0)) Settings = None"
  "settings (apps world4s (Suc 0)) ''case sensitive routing'' = None"
  "settings (apps world4s (Suc 0)) ''strict routing'' = None"
  "settings (apps world4s (Suc 0)) ''query parser fn'' = Some (Builtin ''qs'')"
  by (simp_all add: world4s_def use_rules world3_facts)

lemma world5s_facts:
  "own_router (apps world5s 0) =
     Some \<lparr>caseSensitive = True, strict = False,
           stack = [\<lparr>lpath = JStr ''/'', lhandle = QueryMw (Builtin ''qs'')\<rparr>,
                    \<lparr>lpath = JStr ''/'', lhandle = InitMw 0\<rparr>,
                    \<lparr>lpath = JStr ''/c'', lhandle = MountedApp 1\<rparr>]\<rparr>"
  "own_router (apps world5s (Suc 0)) =
     Some \<lparr>caseSensitive = False, strict = False,
           stack = [\<lparr>lpath = JStr ''/'', lhandle = QueryMw (Builtin ''qs'')\<rparr>,
                    \<lparr>lpath = JStr ''/'', lhandle = InitMw 1\<rparr>,
                    \<lparr>lpath = JStr ''/Foo'', lhandle = Middleware (JFun 7)\<rparr>]\<rparr>"
  by (simp_all add: world5s_def use_rules world4s_facts)

lemma match_facts:
  "literal_match True False False (JStr ''/'') ''/c/foo'' = Some ''/c/foo''"
  "literal_match True False False (JStr ''/c'') ''/c/foo'' = Some ''/foo''"
  "literal_match True False False (JStr ''/'') ''/foo'' = Some ''/foo''"
  "literal_match True False False (JStr ''/Foo'') ''/foo'' = None"
  "literal_match False False False (JStr ''/'') ''/foo'' = Some ''/foo''"
  "literal_match False False False (JStr ''/Foo'') ''/foo'' = Some []"
  by code_simp+

lemmas dispatch_rules = app_handle_def Router_handle_def mounted_app_def req_app_def act_def
  pre_def app_fn_def env0_def probe_def

lemma entry0_inner: "entry0\<lparr>url := ''/foo''\<rparr> = inner0"
  by (simp add: entry0_def inner0_def)

lemma child_exhausts:
  "handle_upto 0 env0 world5 (Suc 0) inner0 (Some k) =
     pre [Ran (QueryMw (Builtin ''qs'')), Ran (InitMw 1)]
       (k Undefined (inner0\<lparr>req_proto := Some 1, res_proto := Some 1\<rparr>))"
  by (simp add: app_handle_def Router_handle_def act_def env0_def pre_pre
        world5_facts match_facts inner0_def)

section \<open>Instances and counterexamples\<close>

text \<open>
  C4, the claim as stated fails: in \<open>use([[], f1], f2)\<close> the first argument is a nested
  array of handlers, yet it is taken as the path; \<open>f1\<close> is never registered and \<open>f2\<close>
  is registered at that array, not at \<open>/\<close>.
\<close>

theorem use_skips_handlers_behind_empty_array:
  "fst (app_use world1 0 [JArr [JArr [], JFun 1], JFun 2]) = None
   \<and> own_router (apps (snd (app_use world1 0 [JArr [JArr [], JFun 1], JFun 2])) 0) =
       Some \<lparr>caseSensitive = False, strict = False,
             stack = [\<lparr>lpath = JStr ''/'', lhandle = QueryMw (Builtin ''qs'')\<rparr>,
                      \<lparr>lpath = JStr ''/'', lhandle = InitMw 0\<rparr>,
                      \<lparr>lpath = JArr [JArr [], JFun 1], lhandle = Middleware (JFun 2)\<rparr>]\<rparr>"
  by (simp add: use_rules world1_facts)

lemma use_three:
  "fst (app_use world1 0 [JStr ''/api'', JArr [JFun 1, JArr [JFun 2]], JFun 3]) = None"
  by (simp add: use_rules world1_facts)

theorem use_appends_layers_witness:
  "own_router (apps (snd (app_use world1 0 [JStr ''/api'', JArr [JFun 1, JArr [JFun 2]], JFun 3])) 0) =
     Some \<lparr>caseSensitive = False, strict = False,
           stack = [\<lparr>lpath = JStr ''/'', lhandle = QueryMw (Builtin ''qs'')\<rparr>,
                    \<lparr>lpath = JStr ''/'', lhandle = InitMw 0\<rparr>,
                    \<lparr>lpath = JStr ''/api'', lhandle = Middleware (JFun 1)\<rparr>,
                    \<lparr>lpath = JStr ''/api'', lhandle = Middleware (JFun 2)\<rparr>,
                    \<lparr>lpath = JStr ''/api'', lhandle = Middleware (JFun 3)\<rparr>]\<rparr>"
proof -
  have "app_use world1 0 [JStr ''/api'', JArr [JFun 1, JArr [JFun 2]], JFun 3] =
          (None, snd (app_use world1 0 [JStr ''/api'', JArr [JFun 1, JArr [JFun 2]], JFun 3]))"
    using use_three by (simp add: prod_eq_iff)
  from use_appends_layers [OF this] show ?thesis
    by (auto simp: lazyrouter_fields world1_facts enabled_def settings_get_def chain_of_def
          List.map_filter_simps object_prototype_settings use_path_def
          use_offset_def use_fn_def use_handler_def mountable_def get_member_def)
qed







text \<open>
  So does \<open>use("/a", {handle: 1, set: 1})\<close>: the object passes for an application, its
  Layer is registered, and the call fails on \<open>fn.emit\<close>.
\<close>

lemma use_lookalike_registers:
  "fst (app_use world1 0 [JStr ''/a'', JObj False [(''handle'', JNum 1), (''set'', JNum 1)]])
     = Some (Thrown (TypeError ''fn.emit is not a function''))
   \<and> own_router (apps (snd (app_use world1 0
          [JStr ''/a'', JObj False [(''handle'', JNum 1), (''set'', JNum 1)]])) 0) =
       Some \<lparr>caseSensitive = False, strict = False,
             stack = [\<lparr>lpath = JStr ''/'', lhandle = QueryMw (Builtin ''qs'')\<rparr>,
                      \<lparr>lpath = JStr ''/'', lhandle = InitMw 0\<rparr>,
                      \<lparr>lpath = JStr ''/a'',
                       lhandle = MountedObject
                         (JObj False [(''handle'', JNum 1), (''set'', JNum 1)])\<rparr>]\<rparr>"
  by (simp add: use_rules world1_facts)


text \<open>
  C7, the claim as stated fails: the parent has case sensitive routing enabled, the
  child is mounted at \<open>/c\<close> and then registers a handler at \<open>/Foo\<close>.  With the listener
  the child's router is case sensitive and \<open>GET /c/foo\<close> falls through to the parent's
  callback; without it the child's router is not, and the handler runs.
\<close>

theorem mount_listener_changes_matching:
  "map_option caseSensitive (own_router (apps world5 1)) = Some True
   \<and> map_option caseSensitive (own_router (apps world5s 1)) = Some False
   \<and> handle_upto (Suc 0) env0 world5 0 request0 (Some probe) =
     Some [Ran (QueryMw (Builtin ''qs'')), Ran (InitMw 0), Ran (MountedApp 1),
           Ran (QueryMw (Builtin ''qs'')), Ran (InitMw 1),
           Called Undefined (request0\<lparr>req_proto := Some 0, res_proto := Some 0\<rparr>)]
   \<and> handle_upto (Suc 0) env0 world5s 0 request0 (Some probe) =
     Some [Ran (QueryMw (Builtin ''qs'')), Ran (InitMw 0), Ran (MountedApp 1),
           Ran (QueryMw (Builtin ''qs'')), Ran (InitMw 1), Ran (Middleware (JFun 7))]"
  by (simp add: dispatch_rules world5_facts world5s_facts match_facts request0_def)

theorem handle_without_router_witness:
  "handle_upto 3 env0 world3 0 request0 (Some probe) = Some [Called Undefined request0]"
  using handle_without_router [of world3 0 3 env0 request0 probe]
  by (simp add: world3_facts probe_def)

theorem mount_exhaustion_resumes_parent_witness:
  "Router_walk (handle_upto 0 env0 world5) env0 (routes world5)
     \<lparr>caseSensitive = True, strict = False, stack = []\<rparr>
     [\<lparr>lpath = JStr ''/c'', lhandle = MountedApp 1\<rparr>,
      \<lparr>lpath = JStr ''/'', lhandle = Middleware (JFun 7)\<rparr>]
     entry0 Undefined probe =
   Some [Ran (MountedApp 1), Ran (QueryMw (Builtin ''qs'')), Ran (InitMw 1),
         Ran (Middleware (JFun 7))]"
proof -
  have ex: "\<forall>k. handle_upto 0 env0 world5 1 (entry0\<lparr>url := ''/foo''\<rparr>) (Some k) =
     pre [Ran (QueryMw (Builtin ''qs'')), Ran (InitMw 1)]
       (k Undefined (inner0\<lparr>req_proto := Some 1, res_proto := Some 1\<rparr>))"
    using child_exhausts by (simp add: entry0_inner del: handle_upto.simps)
  have orig: "req_app entry0 = Some 0"
    by (simp add: req_app_def entry0_def)
  have m: "matcher env0 (caseSensitive \<lparr>caseSensitive = True, strict = False, stack = []\<rparr>)
             (strict \<lparr>caseSensitive = True, strict = False, stack = []\<rparr>) False (JStr ''/c'')
             (url entry0) = Some ''/foo''"
    by (simp add: env0_def entry0_def match_facts)
  have "Router_walk (handle_upto 0 env0 world5) env0 (routes world5)
     \<lparr>caseSensitive = True, strict = False, stack = []\<rparr>
     (\<lparr>lpath = JStr ''/c'', lhandle = MountedApp 1\<rparr> #
      [\<lparr>lpath = JStr ''/'', lhandle = Middleware (JFun 7)\<rparr>])
     entry0 Undefined probe =
     pre (Ran (MountedApp 1) # [Ran (QueryMw (Builtin ''qs'')), Ran (InitMw 1)])
       (Router_walk (handle_upto 0 env0 world5) env0 (routes world5)
          \<lparr>caseSensitive = True, strict = False, stack = []\<rparr>
          [\<lparr>lpath = JStr ''/'', lhandle = Middleware (JFun 7)\<rparr>]
          (inner0\<lparr>req_proto := Some 1, res_proto := Some 1, req_proto := Some 0,
                   res_proto := Some 0, url := url entry0\<rparr>) Undefined probe)"
    using mount_exhaustion_resumes_parent
      [where H = "handle_upto 0 env0 world5" and c = 1 and st = entry0 and rest = "''/foo''"
         and tr = "[Ran (QueryMw (Builtin ''qs'')), Ran (InitMw 1)]" and e = Undefined
         and ?s1.0 = "inner0\<lparr>req_proto := Some 1, res_proto := Some 1\<rparr>" and a = 0
         and E = env0 and r = "\<lparr>caseSensitive = True, strict = False, stack = []\<rparr>"
         and p = "JStr ''/c''", OF ex orig m]
    by simp
  then show ?thesis
    by (simp add: act_def env0_def pre_def match_facts entry0_def inner0_def)
qed

theorem mount_restores_prototypes_witness:
  "mounted_app (handle_upto 0 env0 world5) 1 inner0 probe =
     Some [Ran (QueryMw (Builtin ''qs'')), Ran (InitMw 1), Called Undefined inner0]
   \<and> req_proto inner0 = Some 0 \<and> res_proto inner0 = Some 0"
proof -
  have a: "req_proto inner0 = Some 0" and b: "res_proto inner0 = Some 0"
    by (simp_all add: inner0_def)
  have "inner0\<lparr>req_proto := Some 1, res_proto := Some 1, req_proto := Some 0,
                res_proto := Some 0\<rparr> = inner0"
    by (simp add: inner0_def)
  then have run: "mounted_app (handle_upto 0 env0 world5) 1 inner0 probe =
     Some [Ran (QueryMw (Builtin ''qs'')), Ran (InitMw 1), Called Undefined inner0]"
    by (simp add: mounted_app_def req_app_def a child_exhausts pre_def probe_def
          del: handle_upto.simps)
  have mem: "Called Undefined inner0
               \<in> set [Ran (QueryMw (Builtin ''qs'')), Ran (InitMw 1), Called Undefined inner0]"
    by simp
  from mount_restores_prototypes [OF a b run mem] run a b show ?thesis by simp
qed

end
